theory Spec2Isabelle
  imports Complex_Main
begin

section \<open>Values, exceptions and sequencing\<close>

text \<open>
  The dashboard is one Python script, \<^verbatim>\<open>main.py\<close>. Prices are Python floats; they
  are modelled as \<^typ>\<open>real\<close> numbers, the type the data model of the specification
  gives to a price, so the rounding of binary floating point is not part of the model.
  Every exception the script can meet is a value of \<open>exn\<close>, and a computation that may
  raise returns \<open>exn + 'a\<close> with \<open>Inl\<close> for the exception.
\<close>

datatype request_exception = Timeout | ConnectionError | JSONDecodeError | InvalidURL

datatype exn =
    ZeroDivisionError
  | IndexError
  | KeyError string
  | RequestException request_exception
  | StopException

text \<open>\<open>a >>= f\<close> of a computation that may raise: the first exception ends it.\<close>

definition and_then :: "exn + 'a \<Rightarrow> ('a \<Rightarrow> exn + 'b) \<Rightarrow> exn + 'b" where
  "and_then m f = (case m of Inl e \<Rightarrow> Inl e | Inr x \<Rightarrow> f x)"

section \<open>Helper functions\<close>

text \<open>
  \<^verbatim>\<open>def calculate_percentage_return(past_val: float, current_val: float) -> float:
      return ((current_val - past_val) / past_val) * 100\<close>
  Python's \<open>/\<close> on floats raises \<open>ZeroDivisionError\<close> for a zero divisor; the model
  takes the arguments as the annotation has them. (A scalar read out of a pandas column
  is a \<^verbatim>\<open>numpy.float64\<close>, whose own division by zero gives inf or nan with a warning:
  that behaviour of the library is not modelled.)
\<close>

definition calculate_percentage_return :: "real \<Rightarrow> real \<Rightarrow> exn + real" where
  "calculate_percentage_return past_val current_val =
     (if past_val = 0 then Inl ZeroDivisionError
      else Inr (((current_val - past_val) / past_val) * 100))"

text \<open>
  A response of \<^verbatim>\<open>requests\<close>: its status code and what \<^verbatim>\<open>res.json()\<close> gives, the
  parsed body or the exception raised for a body that is not JSON (since requests 2.27
  that \<open>JSONDecodeError\<close> is a \<open>RequestException\<close>). The shape \<open>'j\<close> of a parsed
  body is fixed by the endpoint asked.
\<close>

record 'j response =
  status_code :: nat
  json :: "request_exception + 'j"

text \<open>
  What the script does to the outside, in the order it does it: the HTTP requests it
  sends and the Streamlit calls that put something on the main page (the widgets of the
  sidebar are the inputs of a run, the spinner and the expander are containers). A
  metric carries its number, not the two-decimal text made of it; emoji of the source's
  literals are left out of the strings.
\<close>

type_synonym frame = "(string \<times> real list) list"

datatype effect =
    GET string
  | HEAD string
  | St_title string
  | St_warning string
  | St_error string
  | St_header string
  | St_subheader string
  | St_markdown string
  | St_image string
  | St_columns nat
  | St_metric string real
  | St_tabs
  | St_candlestick "real list" "real list" "real list" "real list" "real list"
  | St_comparison string "real list" "real list" string "real list" "real list"
  | St_info string
  | St_link_button string string
  | St_dataframe frame

text \<open>
  A run of a piece of the script: the effects so far, and the value it returned or the
  exception that ended it.
\<close>

type_synonym 'a script = "effect list \<times> (exn + 'a)"

definition emit :: "effect \<Rightarrow> unit script" where
  "emit e = ([e], Inr ())"

definition eval :: "exn + 'a \<Rightarrow> 'a script" where
  "eval r = ([], r)"

definition then_run :: "'a script \<Rightarrow> ('a \<Rightarrow> 'b script) \<Rightarrow> 'b script" where
  "then_run m f =
     (case m of
        (tr, Inl e) \<Rightarrow> (tr, Inl e)
      | (tr, Inr x) \<Rightarrow> (case f x of (tr', r) \<Rightarrow> (tr @ tr', r)))"

text \<open>
  \<^verbatim>\<open>requests.get(target_url, timeout=10)\<close> sends the request; the environment answers
  a URL with a response or with one of the exceptions of \<^verbatim>\<open>requests\<close>, all of them
  subclasses of \<^verbatim>\<open>requests.exceptions.RequestException\<close> (a timeout is \<open>Timeout\<close>, a
  fault of the network layer is \<open>ConnectionError\<close>).
\<close>

type_synonym 'j http_get = "string \<Rightarrow> request_exception + 'j response"

definition raising :: "request_exception + 'a \<Rightarrow> exn + 'a" where
  "raising r = (case r of Inl k \<Rightarrow> Inl (RequestException k) | Inr x \<Rightarrow> Inr x)"

definition requests_get :: "'j http_get \<Rightarrow> string \<Rightarrow> 'j response script" where
  "requests_get answer url = ([GET url], raising (answer url))"

text \<open>The clause \<^verbatim>\<open>except requests.exceptions.RequestException: return None\<close>.\<close>

fun except_RequestException :: "exn + 'j option \<Rightarrow> exn + 'j option" where
  "except_RequestException (Inl (RequestException k)) = Inr None"
| "except_RequestException r = r"

text \<open>
  \<^verbatim>\<open>def fetch_api_data(target_url: str):
      try:
          res = requests.get(target_url, timeout=10)
          return res.json() if res.status_code == 200 else None
      except requests.exceptions.RequestException:
          return None\<close>
\<close>

definition fetch_api_data :: "'j http_get \<Rightarrow> string \<Rightarrow> 'j option script" where
  "fetch_api_data answer target_url =
     (case requests_get answer target_url of
        (sent, res) \<Rightarrow>
          (sent,
           except_RequestException
             (and_then res (\<lambda>res.
                if status_code res = 200
                then and_then (raising (json res)) (\<lambda>j. Inr (Some j))
                else Inr None))))"

section \<open>Constants and payloads\<close>

definition START_DATE :: string where
  "START_DATE = ''2024-04-01''"

definition END_DATE :: string where
  "END_DATE = ''2026-02-05''"

definition POPULAR_STOCKS :: "string list" where
  "POPULAR_STOCKS = [''AAPL'', ''MSFT'', ''TSLA'', ''AMZN'', ''GOOGL'', ''NVDA'', ''META'']"

definition BENCHMARK_MAP :: "(string \<times> string) list" where
  "BENCHMARK_MAP =
     [(''S&P 500 (SPY)'', ''SPY''), (''Nasdaq (QQQ)'', ''QQQ''), (''Dow Jones (DIA)'', ''DIA'')]"

text \<open>
  One daily bar of the provider, a JSON object with the keys \<open>c h l o t v\<close> (close,
  high, low, open, timestamp in milliseconds, volume).
\<close>

record bar =
  bar_c :: real
  bar_h :: real
  bar_l :: real
  bar_o :: real
  bar_t :: real
  bar_v :: real

text \<open>
  The parsed body of the aggregates endpoint is a dictionary: \<open>aggs_results\<close> is the
  value under the key \<open>results\<close> when the body has that key, \<open>aggs_keys\<close> are the
  other keys of the body. The body of the ticker-details endpoint is a dictionary whose
  \<open>results\<close>, when present, is a dictionary that may hold a \<open>name\<close>.
\<close>

record aggs =
  aggs_keys :: "string list"
  aggs_results :: "bar list option"

record details =
  details_keys :: "string list"
  details_results :: "string option option"

text \<open>Truth value of a fetched body: \<open>None\<close> and the empty dictionary are false.\<close>

definition truthy_aggs :: "aggs option \<Rightarrow> bool" where
  "truthy_aggs raw_data =
     (case raw_data of None \<Rightarrow> False
      | Some d \<Rightarrow> aggs_keys d \<noteq> [] \<or> aggs_results d \<noteq> None)"

definition truthy_details :: "details option \<Rightarrow> bool" where
  "truthy_details raw_data =
     (case raw_data of None \<Rightarrow> False
      | Some d \<Rightarrow> details_keys d \<noteq> [] \<or> details_results d \<noteq> None)"

text \<open>
  The guard \<^verbatim>\<open>raw_data and 'results' in raw_data\<close>: the value under \<open>results\<close> when
  the guard holds.
\<close>

definition results_of :: "aggs option \<Rightarrow> bar list option" where
  "results_of raw_data =
     (if truthy_aggs raw_data
      then (case raw_data of None \<Rightarrow> None | Some d \<Rightarrow> aggs_results d)
      else None)"

section \<open>Data frames\<close>

text \<open>
  A pandas data frame, as far as the script uses one: its columns in order, each a name
  and the values of its rows. \<^verbatim>\<open>pd.DataFrame()\<close> and \<^verbatim>\<open>pd.DataFrame([])\<close> have no
  column at all. A datetime is represented by its milliseconds since the epoch.
\<close>

definition DataFrame :: "bar list \<Rightarrow> frame" where
  "DataFrame results =
     (if results = [] then []
      else [(''c'', map bar_c results), (''h'', map bar_h results),
            (''l'', map bar_l results), (''o'', map bar_o results),
            (''t'', map bar_t results), (''v'', map bar_v results)])"

definition rename :: "(string \<times> string) list \<Rightarrow> frame \<Rightarrow> frame" where
  "rename columns df =
     map (\<lambda>(k, col). (case map_of columns k of None \<Rightarrow> k | Some k' \<Rightarrow> k', col)) df"

text \<open>\<^verbatim>\<open>df[k]\<close> raises \<open>KeyError\<close> for a column the frame does not have.\<close>

definition getitem :: "frame \<Rightarrow> string \<Rightarrow> exn + real list" where
  "getitem df k = (case map_of df k of None \<Rightarrow> Inl (KeyError k) | Some col \<Rightarrow> Inr col)"

text \<open>\<^verbatim>\<open>df[k] = col\<close> replaces the column or appends it.\<close>

definition setitem :: "frame \<Rightarrow> string \<Rightarrow> real list \<Rightarrow> frame" where
  "setitem df k col =
     (if map_of df k = None then df @ [(k, col)]
      else map (\<lambda>(k', old). if k' = k then (k', col) else (k', old)) df)"

text \<open>\<^verbatim>\<open>len(df)\<close>, the number of rows.\<close>

definition len :: "frame \<Rightarrow> nat" where
  "len df = (case df of [] \<Rightarrow> 0 | (k, col) # rest \<Rightarrow> length col)"

text \<open>
  \<^verbatim>\<open>col.iloc[i]\<close>: a position from the front, or from the end when \<open>i\<close> is
  negative; \<open>IndexError\<close> outside the column.
\<close>

definition iloc :: "real list \<Rightarrow> int \<Rightarrow> exn + real" where
  "iloc col i =
     (if 0 \<le> i \<and> i < int (length col) then Inr (col ! nat i)
      else if i < 0 \<and> - int (length col) \<le> i then Inr (col ! nat (int (length col) + i))
      else Inl IndexError)"

definition to_datetime :: "real list \<Rightarrow> real list" where
  "to_datetime ms = ms"

section \<open>Metrics and comparison\<close>

record metrics =
  latest_price :: real
  ret_total :: real
  ret_week :: real

text \<open>
  \<^verbatim>\<open>latest_price = main_df['Close'].iloc[-1]
  ret_total = calculate_percentage_return(main_df['Close'].iloc[0], latest_price)
  ret_week = calculate_percentage_return(main_df['Close'].iloc[-5], latest_price) if len(main_df) >= 5 else ret_total\<close>
\<close>

definition metrics_calculation :: "frame \<Rightarrow> exn + metrics" where
  "metrics_calculation main_df =
     and_then (and_then (getitem main_df ''Close'') (\<lambda>close. iloc close (- 1)))
       (\<lambda>latest_price.
     and_then (and_then (and_then (getitem main_df ''Close'') (\<lambda>close. iloc close 0))
                 (\<lambda>past. calculate_percentage_return past latest_price))
       (\<lambda>ret_total.
     and_then (if len main_df \<ge> 5
               then and_then (and_then (getitem main_df ''Close'') (\<lambda>close. iloc close (- 5)))
                      (\<lambda>past. calculate_percentage_return past latest_price)
               else Inr ret_total)
       (\<lambda>ret_week.
     Inr \<lparr>latest_price = latest_price, ret_total = ret_total, ret_week = ret_week\<rparr>)))"

text \<open>
  \<^verbatim>\<open>(col / col.iloc[0]) * 100\<close>, a column rescaled to its first value. For a zero
  first value pandas fills the column with inf and nan; the model has no such values,
  and no completed run shows such a column: \<open>calculate_percentage_return\<close> is called
  with the same first value, before this line for the primary series and right after it
  for the benchmark.
\<close>

definition normalized :: "real list \<Rightarrow> exn + real list" where
  "normalized col = and_then (iloc col 0) (\<lambda>base. Inr (map (\<lambda>x. (x / base) * 100) col))"

text \<open>\<^verbatim>\<open>outperformance = ret_total - bench_total_ret\<close>\<close>

definition outperformance :: "real \<Rightarrow> real \<Rightarrow> real" where
  "outperformance total_ret bench_total_ret = total_ret - bench_total_ret"

record comparison =
  main_df :: frame
  bench_df :: frame
  outperform_val :: "real option"

text \<open>
  The comparison branch (lines 106 to 116 of the script). Without usable benchmark data
  \<open>bench_df\<close> stays the empty \<^verbatim>\<open>pd.DataFrame()\<close> and \<open>outperform_val\<close> stays \<open>None\<close>.
\<close>

definition comparison_logic :: "frame \<Rightarrow> real \<Rightarrow> aggs option \<Rightarrow> exn + comparison" where
  "comparison_logic main_df0 total_ret benchmark_raw_data =
     (case results_of benchmark_raw_data of
        None \<Rightarrow> Inr \<lparr>main_df = main_df0, bench_df = [], outperform_val = None\<rparr>
      | Some results \<Rightarrow>
          and_then (getitem (DataFrame results) ''t'') (\<lambda>t.
          and_then (and_then (getitem main_df0 ''Close'') normalized) (\<lambda>main_norm.
          and_then (and_then (getitem (setitem (DataFrame results) ''Date'' (to_datetime t)) ''c'')
                      normalized) (\<lambda>bench_norm.
          let bench_df1 =
                setitem (setitem (DataFrame results) ''Date'' (to_datetime t))
                  ''Normalized'' bench_norm
          in
          and_then (and_then (getitem bench_df1 ''c'') (\<lambda>c. iloc c 0)) (\<lambda>past.
          and_then (and_then (getitem bench_df1 ''c'') (\<lambda>c. iloc c (- 1))) (\<lambda>current.
          and_then (calculate_percentage_return past current) (\<lambda>bench_total_ret.
          Inr \<lparr>main_df = setitem main_df0 ''Normalized'' main_norm,
               bench_df = bench_df1,
               outperform_val = Some (outperformance total_ret bench_total_ret)\<rparr>)))))))"

section \<open>The page\<close>

text \<open>
  The sidebar widgets give the inputs of a run; the environment gives the API key and
  the answer to each request, one per call site (two requests for the same URL need not
  be answered alike). \<open>logo_answer\<close> is the status code of
  \<^verbatim>\<open>requests.head(img_url, timeout=2)\<close>, or the exception it raises.
\<close>

record sidebar =
  input_choice :: string
  popular_stock :: string
  ticker_text :: string
  benchmark_label :: string

record world =
  MY_API_KEY :: string
  stock_answer :: "aggs http_get"
  info_answer :: "details http_get"
  bench_answer :: "aggs http_get"
  logo_answer :: "string \<Rightarrow> request_exception + nat"

text \<open>\<^verbatim>\<open>str.upper()\<close>, on the ASCII letters.\<close>

definition upper :: "string \<Rightarrow> string" where
  "upper s =
     map (\<lambda>ch. if 97 \<le> (of_char ch :: nat) \<and> (of_char ch :: nat) \<le> 122
               then char_of ((of_char ch :: nat) - 32) else ch) s"

definition symbol_of :: "sidebar \<Rightarrow> string" where
  "symbol_of inp =
     (if input_choice inp = ''Choose from list'' then popular_stock inp
      else upper (ticker_text inp))"

definition benchmark_symbol_of :: "sidebar \<Rightarrow> string option" where
  "benchmark_symbol_of inp = map_of BENCHMARK_MAP (benchmark_label inp)"

definition stock_url :: "world \<Rightarrow> string \<Rightarrow> string" where
  "stock_url w symbol =
     ''https://api.polygon.io/v2/aggs/ticker/'' @ symbol @ ''/range/1/day/'' @ START_DATE
       @ ''/'' @ END_DATE @ ''?adjusted=true&sort=asc&apiKey='' @ MY_API_KEY w"

definition info_url :: "world \<Rightarrow> string \<Rightarrow> string" where
  "info_url w symbol =
     ''https://api.polygon.io/v3/reference/tickers/'' @ symbol @ ''?apiKey='' @ MY_API_KEY w"

definition bench_url_api :: "world \<Rightarrow> string \<Rightarrow> string" where
  "bench_url_api w benchmark_symbol =
     ''https://api.polygon.io/v2/aggs/ticker/'' @ benchmark_symbol @ ''/range/1/day/''
       @ START_DATE @ ''/'' @ END_DATE @ ''?adjusted=true&sort=asc&apiKey='' @ MY_API_KEY w"

definition img_url :: "string \<Rightarrow> string" where
  "img_url symbol = ''https://companiesmarketcap.com/img/company-logos/64/'' @ symbol @ ''.webp''"

text \<open>
  Data acquisition (lines 60 to 71): the price fetch, the details fetch, and the
  benchmark fetch when a benchmark symbol is set.
\<close>

definition data_acquisition ::
  "world \<Rightarrow> string \<Rightarrow> string option \<Rightarrow> (aggs option \<times> details option \<times> aggs option) script"
where
  "data_acquisition w symbol benchmark_symbol =
     then_run (fetch_api_data (stock_answer w) (stock_url w symbol)) (\<lambda>stock_raw_data.
     then_run (fetch_api_data (info_answer w) (info_url w symbol)) (\<lambda>details_raw_data.
     then_run (case benchmark_symbol of
                 None \<Rightarrow> eval (Inr None)
               | Some b \<Rightarrow>
                   if b = [] then eval (Inr None)
                   else fetch_api_data (bench_answer w) (bench_url_api w b))
       (\<lambda>benchmark_raw_data.
     eval (Inr (stock_raw_data, details_raw_data, benchmark_raw_data)))))"

text \<open>
  \<^verbatim>\<open>company_name = details_raw_data.get('results', {}).get('name', symbol) if details_raw_data else symbol\<close>
\<close>

definition company_name :: "string \<Rightarrow> details option \<Rightarrow> string" where
  "company_name symbol details_raw_data =
     (if truthy_details details_raw_data
      then (case details_raw_data of
              None \<Rightarrow> symbol
            | Some d \<Rightarrow>
                (case details_results d of
                   None \<Rightarrow> symbol
                 | Some res \<Rightarrow> (case res of None \<Rightarrow> symbol | Some name \<Rightarrow> name)))
      else symbol)"

text \<open>The logo probe (lines 82 to 89), with its own \<open>except\<close> clause.\<close>

definition logo :: "world \<Rightarrow> string \<Rightarrow> unit script" where
  "logo w symbol =
     (case raising (logo_answer w (img_url symbol)) of
        Inr code \<Rightarrow>
          ([HEAD (img_url symbol),
            if code = 200 then St_image (img_url symbol) else St_markdown ''## ''], Inr ())
      | Inl (RequestException k) \<Rightarrow> ([HEAD (img_url symbol), St_markdown ''## ''], Inr ())
      | Inl e \<Rightarrow> ([HEAD (img_url symbol)], Inl e))"

text \<open>The data frame of the primary series (lines 95 to 98).\<close>

definition dataframe_transformation :: "bar list \<Rightarrow> exn + frame" where
  "dataframe_transformation results =
     (let df = rename [(''c'', ''Close''), (''h'', ''High''), (''l'', ''Low''),
                       (''o'', ''Open''), (''t'', ''Timestamp''), (''v'', ''Volume'')]
                 (DataFrame results)
      in and_then (getitem df ''Timestamp'') (\<lambda>ts. Inr (setitem df ''Date'' (to_datetime ts))))"

text \<open>The metric tiles (lines 119 to 125).\<close>

definition performance_metrics :: "string \<Rightarrow> metrics \<Rightarrow> real option \<Rightarrow> effect list" where
  "performance_metrics label m outperform =
     [St_markdown ''### Performance Metrics'',
      St_columns (if outperform \<noteq> None then 4 else 3),
      St_metric ''Current Price'' (latest_price m),
      St_metric ''Week Change'' (ret_week m),
      St_metric ''Total Change'' (ret_total m)]
     @ (case outperform of None \<Rightarrow> [] | Some x \<Rightarrow> [St_metric (''vs. '' @ label) x])"

text \<open>The first tab (lines 129 to 138).\<close>

definition candlestick_tab :: "frame \<Rightarrow> unit script" where
  "candlestick_tab df =
     then_run (eval (getitem df ''Date'')) (\<lambda>x.
     then_run (eval (getitem df ''Open'')) (\<lambda>op.
     then_run (eval (getitem df ''High'')) (\<lambda>hi.
     then_run (eval (getitem df ''Low'')) (\<lambda>lo.
     then_run (eval (getitem df ''Close'')) (\<lambda>cl.
     emit (St_candlestick x op hi lo cl))))))"

text \<open>The second tab (lines 140 to 156).\<close>

definition comparison_tab :: "string \<Rightarrow> string \<Rightarrow> comparison \<Rightarrow> unit script" where
  "comparison_tab symbol label cmp =
     (if outperform_val cmp \<noteq> None
      then
        then_run (eval (getitem (main_df cmp) ''Date'')) (\<lambda>x.
        then_run (eval (getitem (main_df cmp) ''Normalized'')) (\<lambda>y.
        then_run (eval (getitem (bench_df cmp) ''Date'')) (\<lambda>bx.
        then_run (eval (getitem (bench_df cmp) ''Normalized'')) (\<lambda>by.
        then_run (emit (St_comparison symbol x y label bx by)) (\<lambda>u.
        emit (St_info (''This chart compares the relative performance starting from ''
                @ START_DATE @ '' of a $100 investment in '' @ symbol @ '' vs '' @ label
                @ ''.'')))))))
      else emit (St_info
             ''Please select a benchmark in the sidebar to see the growth comparison chart.''))"

text \<open>The research links and the raw table (lines 159 to 168).\<close>

definition market_insights :: "string \<Rightarrow> frame \<Rightarrow> effect list" where
  "market_insights symbol df =
     [St_markdown ''---'',
      St_subheader ''Market Insights'',
      St_columns 3,
      St_link_button ''Yahoo Finance'' (''https://finance.yahoo.com/quote/'' @ symbol),
      St_link_button ''Seeking Alpha'' (''https://seekingalpha.com/symbol/'' @ symbol),
      St_link_button ''Google News''
        (''https://www.google.com/search?q='' @ symbol @ ''+stock+news&tbm=nws''),
      St_dataframe df]"

text \<open>
  Data processing and UI (lines 74 to 170): the guard on the primary payload, the page
  of the success branch, and the error message of the other branch.
\<close>

definition data_processing_and_ui ::
  "world \<Rightarrow> string \<Rightarrow> string \<Rightarrow> aggs option \<Rightarrow> details option \<Rightarrow> aggs option \<Rightarrow> unit script"
where
  "data_processing_and_ui w symbol label stock_raw_data details_raw_data benchmark_raw_data =
     (case results_of stock_raw_data of
        None \<Rightarrow>
          emit (St_error
            ''Error: Data fetch failed. Check your connection, ticker, or API limit.'')
      | Some results \<Rightarrow>
          then_run (emit (St_title ''Stock Market Intelligence Dashboard'')) (\<lambda>u.
          then_run (emit (St_columns 2)) (\<lambda>u.
          then_run (logo w symbol) (\<lambda>u.
          then_run (emit (St_header (company_name symbol details_raw_data))) (\<lambda>u.
          then_run (eval (dataframe_transformation results)) (\<lambda>df.
          then_run (eval (metrics_calculation df)) (\<lambda>m.
          then_run (eval (comparison_logic df (ret_total m) benchmark_raw_data)) (\<lambda>cmp.
          then_run (performance_metrics label m (outperform_val cmp), Inr ()) (\<lambda>u.
          then_run (emit St_tabs) (\<lambda>u.
          then_run (candlestick_tab (main_df cmp)) (\<lambda>u.
          then_run (comparison_tab symbol label cmp) (\<lambda>u.
          (market_insights symbol (main_df cmp), Inr ())))))))))))))"

text \<open>
  The whole script. With no symbol it shows the prompt and \<^verbatim>\<open>st.stop()\<close> ends the
  run, which is the exception \<open>StopException\<close> here.
\<close>

definition script :: "world \<Rightarrow> sidebar \<Rightarrow> unit script" where
  "script w inp =
     (if symbol_of inp = []
      then
        then_run (emit (St_title ''Stock Market Intelligence Dashboard'')) (\<lambda>u.
        then_run (emit (St_warning ''Please select or enter a ticker symbol to begin.''))
          (\<lambda>u. eval (Inl StopException)))
      else
        then_run (data_acquisition w (symbol_of inp) (benchmark_symbol_of inp))
          (\<lambda>(stock_raw_data, details_raw_data, benchmark_raw_data).
        data_processing_and_ui w (symbol_of inp) (benchmark_label inp)
          stock_raw_data details_raw_data benchmark_raw_data))"

text \<open>The HTTP requests among the effects of a run.\<close>

fun is_request :: "effect \<Rightarrow> bool" where
  "is_request (GET url) = True"
| "is_request (HEAD url) = True"
| "is_request e = False"

definition requests_sent :: "'a script \<Rightarrow> effect list" where
  "requests_sent run = filter is_request (fst run)"

text \<open>
  The rendering of the primary series on the page: the three metric tiles of the price,
  the week change and the total change, and the candlestick chart.
\<close>

fun primary_rendering :: "effect \<Rightarrow> bool" where
  "primary_rendering (St_metric label x) =
     (label = ''Current Price'' \<or> label = ''Week Change'' \<or> label = ''Total Change'')"
| "primary_rendering (St_candlestick x op hi lo cl) = True"
| "primary_rendering e = False"

section \<open>Example data\<close>

text \<open>
  Data for the concrete cases below: a bar of day \<open>t\<close> whose four prices are \<open>c\<close>,
  a series of such bars, one per close, an aggregates body holding a list of bars, and
  an environment that answers the price request with \<open>stock\<close>, the benchmark request
  with \<open>bench\<close>, the details request with a timeout and the logo probe with 404.
\<close>

definition example_bar :: "real \<Rightarrow> real \<Rightarrow> bar" where
  "example_bar t c = \<lparr>bar_c = c, bar_h = c, bar_l = c, bar_o = c, bar_t = t, bar_v = 1\<rparr>"

definition example_series :: "real list \<Rightarrow> bar list" where
  "example_series closes = map (\<lambda>c. example_bar 0 c) closes"

text \<open>The frame that the script makes of \<open>example_series closes\<close>.\<close>

definition example_frame :: "real list \<Rightarrow> frame" where
  "example_frame closes =
     [(''Close'', closes), (''High'', closes), (''Low'', closes), (''Open'', closes),
      (''Timestamp'', map (\<lambda>c. 0) closes), (''Volume'', map (\<lambda>c. 1) closes),
      (''Date'', map (\<lambda>c. 0) closes)]"

definition example_body :: "bar list \<Rightarrow> aggs" where
  "example_body results = \<lparr>aggs_keys = [''status''], aggs_results = Some results\<rparr>"

definition example_world ::
  "(request_exception + aggs response) \<Rightarrow> (request_exception + aggs response) \<Rightarrow> world" where
  "example_world stock bench =
     \<lparr>MY_API_KEY = ''KEY'',
      stock_answer = (\<lambda>url. stock),
      info_answer = (\<lambda>url. Inl Timeout),
      bench_answer = (\<lambda>url. bench),
      logo_answer = (\<lambda>url. Inr 404)\<rparr>"

section \<open>Sequencing, data frames and positions\<close>

lemma and_then_Inr: "and_then (Inr x) f = f x"
  by (simp add: and_then_def)

lemma and_then_Inl: "and_then (Inl e) f = Inl e"
  by (simp add: and_then_def)

lemma dataframe_transformation_Nil:
  "dataframe_transformation [] = Inl (KeyError ''Timestamp'')"
  by (simp add: dataframe_transformation_def DataFrame_def rename_def getitem_def and_then_def)

lemma dataframe_transformation_bars:
  "results \<noteq> [] \<Longrightarrow> dataframe_transformation results =
     Inr [(''Close'', map bar_c results), (''High'', map bar_h results),
          (''Low'', map bar_l results), (''Open'', map bar_o results),
          (''Timestamp'', map bar_t results), (''Volume'', map bar_v results),
          (''Date'', map bar_t results)]"
  by (simp add: dataframe_transformation_def DataFrame_def rename_def getitem_def and_then_def
      setitem_def to_datetime_def)

lemma getitem_Close_bars:
  "results \<noteq> [] \<Longrightarrow> dataframe_transformation results = Inr df \<Longrightarrow>
     getitem df ''Close'' = Inr (map bar_c results) \<and> len df = length results"
  by (auto simp add: dataframe_transformation_bars getitem_def len_def)

lemma dataframe_transformation_example:
  "closes \<noteq> [] \<Longrightarrow>
     dataframe_transformation (example_series closes) = Inr (example_frame closes)"
  by (simp add: dataframe_transformation_bars example_series_def example_frame_def
      example_bar_def o_def)

lemma iloc_first: "col \<noteq> [] \<Longrightarrow> iloc col 0 = Inr (hd col)"
  by (cases col) (simp_all add: iloc_def)

lemma iloc_last: "col \<noteq> [] \<Longrightarrow> iloc col (- 1) = Inr (last col)"
proof -
  assume ne: "col \<noteq> []"
  then have pos: "0 < length col" by simp
  then have "nat (int (length col) + - 1) = length col - 1"
    by linarith
  moreover from pos have "- int (length col) \<le> - 1" by linarith
  ultimately show ?thesis using ne
    by (simp add: iloc_def last_conv_nth)
qed

lemma iloc_minus5: "5 \<le> length col \<Longrightarrow> iloc col (- 5) = Inr (col ! (length col - 5))"
proof -
  assume ge: "5 \<le> length col"
  then have "nat (int (length col) + - 5) = length col - 5"
    by linarith
  moreover from ge have "- int (length col) \<le> - 5" by linarith
  ultimately show ?thesis
    by (simp add: iloc_def)
qed

lemma iloc_Nil: "iloc [] i = Inl IndexError"
  by (simp add: iloc_def)

text \<open>The metrics of a frame, read off its column of closes.\<close>

lemma metrics_calculation_Close:
  assumes "getitem df ''Close'' = Inr cl" and "cl \<noteq> []"
  shows "metrics_calculation df =
     and_then (calculate_percentage_return (hd cl) (last cl)) (\<lambda>t.
     and_then (if 5 \<le> len df
               then and_then (iloc cl (- 5)) (\<lambda>p. calculate_percentage_return p (last cl))
               else Inr t) (\<lambda>wk.
     Inr \<lparr>latest_price = last cl, ret_total = t, ret_week = wk\<rparr>))"
  using assms
  by (simp add: metrics_calculation_def and_then_Inr iloc_first iloc_last cong: if_cong)

section \<open>The data fetcher\<close>

text \<open>
  Claim C4. For every request, \<open>fetch_api_data\<close> sends one GET and returns the parsed
  JSON body when the status is 200 (and the body parses), and \<open>None\<close> on any other
  status, on a timeout and on a fault of the network layer (any exception of
  \<^verbatim>\<open>requests\<close>); it never raises to its caller.
\<close>

theorem fetch_api_data_contract:
  "fst (fetch_api_data answer url) = [GET url]
   \<and> (answer url = Inr res \<and> status_code res = 200 \<and> json res = Inr j
        \<longrightarrow> snd (fetch_api_data answer url) = Inr (Some j))
   \<and> (answer url = Inr res \<and> status_code res \<noteq> 200
        \<longrightarrow> snd (fetch_api_data answer url) = Inr None)
   \<and> (answer url = Inl k \<longrightarrow> snd (fetch_api_data answer url) = Inr None)
   \<and> (\<exists>r. snd (fetch_api_data answer url) = Inr r)"
  by (auto simp add: fetch_api_data_def requests_get_def raising_def and_then_def
      split: sum.splits)

theorem fetch_api_data_contract_witness:
  "snd (fetch_api_data (\<lambda>u. Inr \<lparr>status_code = 200, json = Inr (5::nat)\<rparr>) ''u'') = Inr (Some 5)
   \<and> snd (fetch_api_data (\<lambda>u. Inr \<lparr>status_code = 404, json = Inr (5::nat)\<rparr>) ''u'') = Inr None
   \<and> snd (fetch_api_data (\<lambda>u. Inl Timeout :: request_exception + nat response) ''u'') = Inr None
   \<and> snd (fetch_api_data (\<lambda>u. Inl ConnectionError :: request_exception + nat response) ''u'')
       = Inr None"
  using
    fetch_api_data_contract [of "\<lambda>u. Inr \<lparr>status_code = 200, json = Inr (5::nat)\<rparr>" "''u''"
      "\<lparr>status_code = 200, json = Inr (5::nat)\<rparr>" 5 Timeout]
    fetch_api_data_contract [of "\<lambda>u. Inr \<lparr>status_code = 404, json = Inr (5::nat)\<rparr>" "''u''"
      "\<lparr>status_code = 404, json = Inr (5::nat)\<rparr>" 5 Timeout]
    fetch_api_data_contract [of "\<lambda>u. Inl Timeout :: request_exception + nat response" "''u''"
      "\<lparr>status_code = 404, json = Inr (5::nat)\<rparr>" 5 Timeout]
    fetch_api_data_contract [of "\<lambda>u. Inl ConnectionError :: request_exception + nat response"
      "''u''" "\<lparr>status_code = 404, json = Inr (5::nat)\<rparr>" 5 ConnectionError]
  by simp

section \<open>The return calculator\<close>

text \<open>
  Claim C3. For all past and current values with a nonzero past value,
  \<open>calculate_percentage_return\<close> returns \<open>(current - past) / past * 100\<close>; in
  particular it returns 10 on (100, 110) and -50 on (50, 25).
\<close>

theorem calculate_percentage_return_formula:
  "(past_val \<noteq> 0 \<longrightarrow>
      calculate_percentage_return past_val current_val
        = Inr ((current_val - past_val) / past_val * 100))
   \<and> calculate_percentage_return 100 110 = Inr 10
   \<and> calculate_percentage_return 50 25 = Inr (- 50)"
  by (simp add: calculate_percentage_return_def)

theorem calculate_percentage_return_formula_witness:
  "(8::real) \<noteq> 0 \<and> calculate_percentage_return 8 10 = Inr ((10 - 8) / 8 * 100)
   \<and> calculate_percentage_return 8 10 = Inr 25"
  using calculate_percentage_return_formula [of 8 10] by simp

section \<open>Week return and total return\<close>

text \<open>
  Claim C5. For every primary series with fewer than 5 bars the week return equals the
  total return: whenever the metrics of such a frame are computed the two are equal,
  and they are computed, the total return being that of the first and the last close,
  for every such series that is not empty and whose first close is not zero. For a
  3-bar series with the closes 10, 12, 15 both are 50.
\<close>

theorem week_return_short_history:
  "(len df < 5 \<and> metrics_calculation df = Inr m \<longrightarrow> ret_week m = ret_total m)
   \<and> (results \<noteq> [] \<and> length results < 5 \<and> bar_c (hd results) \<noteq> 0 \<longrightarrow>
        (\<exists>df m. dataframe_transformation results = Inr df \<and> metrics_calculation df = Inr m
           \<and> ret_week m = ret_total m
           \<and> calculate_percentage_return (bar_c (hd results)) (bar_c (last results))
               = Inr (ret_total m)))
   \<and> (map bar_c series = [10, 12, 15] \<longrightarrow>
        (\<exists>df m. dataframe_transformation series = Inr df \<and> metrics_calculation df = Inr m
           \<and> ret_week m = 50 \<and> ret_total m = 50))"
proof (intro conjI impI)
  assume "len df < 5 \<and> metrics_calculation df = Inr m"
  then show "ret_week m = ret_total m"
    by (auto simp add: metrics_calculation_def and_then_def split: sum.splits)
next
  assume a: "results \<noteq> [] \<and> length results < 5 \<and> bar_c (hd results) \<noteq> 0"
  obtain df where df: "dataframe_transformation results = Inr df"
    using a dataframe_transformation_bars by blast
  have cl: "getitem df ''Close'' = Inr (map bar_c results)" and n: "len df = length results"
    using a df getitem_Close_bars by blast+
  have "metrics_calculation df =
      Inr \<lparr>latest_price = bar_c (last results),
           ret_total = (bar_c (last results) - bar_c (hd results)) / bar_c (hd results) * 100,
           ret_week = (bar_c (last results) - bar_c (hd results)) / bar_c (hd results) * 100\<rparr>"
    using a n metrics_calculation_Close [OF cl]
    by (simp add: calculate_percentage_return_def and_then_Inr hd_map last_map)
  with df a show "\<exists>df m. dataframe_transformation results = Inr df
           \<and> metrics_calculation df = Inr m \<and> ret_week m = ret_total m
           \<and> calculate_percentage_return (bar_c (hd results)) (bar_c (last results))
               = Inr (ret_total m)"
    by (simp add: calculate_percentage_return_def)
next
  assume a: "map bar_c series = [10, 12, 15]"
  then have ne: "series \<noteq> []" by auto
  obtain df where df: "dataframe_transformation series = Inr df"
    using ne dataframe_transformation_bars by blast
  have cl: "getitem df ''Close'' = Inr [10, 12, 15]" and n: "len df = length series"
    using a ne df getitem_Close_bars by fastforce+
  have "length (map bar_c series) = 3" by (simp only: a) simp
  then have "length series = 3" by simp
  with n have "metrics_calculation df = Inr \<lparr>latest_price = 15, ret_total = 50, ret_week = 50\<rparr>"
    using metrics_calculation_Close [OF cl]
    by (simp add: calculate_percentage_return_def and_then_Inr)
  with df show "\<exists>df m. dataframe_transformation series = Inr df
           \<and> metrics_calculation df = Inr m \<and> ret_week m = 50 \<and> ret_total m = 50"
    by simp
qed

theorem week_return_short_history_witness:
  "len [(''Close'', [10, 12, 15])] < 5
   \<and> metrics_calculation [(''Close'', [10, 12, 15])]
       = Inr \<lparr>latest_price = 15, ret_total = 50, ret_week = 50\<rparr>
   \<and> ret_week \<lparr>latest_price = 15, ret_total = 50, ret_week = 50\<rparr>
       = ret_total \<lparr>latest_price = 15, ret_total = 50, ret_week = 50\<rparr>
   \<and> example_series [10, 12, 15] \<noteq> [] \<and> length (example_series [10, 12, 15]) < 5
   \<and> bar_c (hd (example_series [10, 12, 15])) \<noteq> 0
   \<and> map bar_c (example_series [10, 12, 15]) = [10, 12, 15]
   \<and> (\<exists>df m. dataframe_transformation (example_series [10, 12, 15]) = Inr df
         \<and> metrics_calculation df = Inr m \<and> ret_week m = 50 \<and> ret_total m = 50)"
proof -
  have m: "metrics_calculation [(''Close'', [10, 12, 15])]
       = Inr \<lparr>latest_price = 15, ret_total = 50, ret_week = 50\<rparr>"
    by (simp add: metrics_calculation_def and_then_def getitem_def iloc_def len_def
        calculate_percentage_return_def)
  have s: "map bar_c (example_series [10, 12, 15]) = [10, 12, 15]"
    by (simp add: example_series_def example_bar_def)
  show ?thesis
    using m s
      week_return_short_history [of "[(''Close'', [10, 12, 15])]"
        "\<lparr>latest_price = 15, ret_total = 50, ret_week = 50\<rparr>"
        "example_series [10, 12, 15]" "example_series [10, 12, 15]"]
    by (simp add: len_def example_series_def example_bar_def)
qed

text \<open>
  Claim C2, as the code has it. For every primary series with at least 5 bars the week
  return is \<open>calculate_percentage_return\<close> of the 5th-from-last close (position -5) and
  the last close; with fewer than 5 bars it is the total return. The claim names the
  6th-from-last close: on six bars with the closes 100, 110, 120, 130, 140, 150 the
  week return is 400/11, from the close 110, and not the 50 that the close 100 gives.
\<close>

theorem week_return_fifth_from_last:
  "(5 \<le> length results \<and> dataframe_transformation results = Inr df
      \<and> metrics_calculation df = Inr m \<longrightarrow>
        calculate_percentage_return (map bar_c results ! (length results - 5))
          (bar_c (last results)) = Inr (ret_week m))
   \<and> (5 \<le> length results \<and> bar_c (hd results) \<noteq> 0
      \<and> bar_c (results ! (length results - 5)) \<noteq> 0 \<longrightarrow>
        (\<exists>df m. dataframe_transformation results = Inr df \<and> metrics_calculation df = Inr m))
   \<and> (length results < 5 \<and> dataframe_transformation results = Inr df
      \<and> metrics_calculation df = Inr m \<longrightarrow> ret_week m = ret_total m)"
proof (intro conjI impI)
  assume a: "5 \<le> length results \<and> dataframe_transformation results = Inr df
      \<and> metrics_calculation df = Inr m"
  then have ne: "results \<noteq> []" by auto
  have cl: "getitem df ''Close'' = Inr (map bar_c results)" and n: "len df = length results"
    using a ne getitem_Close_bars by blast+
  have five: "iloc (map bar_c results) (- 5) = Inr (map bar_c results ! (length results - 5))"
    using a iloc_minus5 [of "map bar_c results"] by simp
  show "calculate_percentage_return (map bar_c results ! (length results - 5))
          (bar_c (last results)) = Inr (ret_week m)"
    using a ne n five metrics_calculation_Close [OF cl]
    by (auto simp add: and_then_def last_map split: sum.splits)
next
  assume a: "5 \<le> length results \<and> bar_c (hd results) \<noteq> 0
      \<and> bar_c (results ! (length results - 5)) \<noteq> 0"
  then have ne: "results \<noteq> []" by auto
  obtain df where df: "dataframe_transformation results = Inr df"
    using ne dataframe_transformation_bars by blast
  have cl: "getitem df ''Close'' = Inr (map bar_c results)" and n: "len df = length results"
    using df ne getitem_Close_bars by blast+
  have "length results - 5 < length results"
    using a by linarith
  then have "map bar_c results ! (length results - 5) = bar_c (results ! (length results - 5))"
    by (rule nth_map)
  then have five: "iloc (map bar_c results) (- 5) = Inr (bar_c (results ! (length results - 5)))"
    using a iloc_minus5 [of "map bar_c results"] by simp
  have "\<exists>m. metrics_calculation df = Inr m"
    using a ne n five metrics_calculation_Close [OF cl]
    by (simp add: and_then_Inr calculate_percentage_return_def hd_map)
  with df show "\<exists>df m. dataframe_transformation results = Inr df \<and> metrics_calculation df = Inr m"
    by blast
next
  assume a: "length results < 5 \<and> dataframe_transformation results = Inr df
      \<and> metrics_calculation df = Inr m"
  then have ne: "results \<noteq> []"
    using dataframe_transformation_Nil by auto
  have "len df = length results"
    using a ne getitem_Close_bars by blast
  with a show "ret_week m = ret_total m"
    by (auto simp add: metrics_calculation_def and_then_def split: sum.splits)
qed

theorem week_return_fifth_from_last_witness:
  "5 \<le> length (example_series [100, 110, 120, 130, 140, 150])
   \<and> dataframe_transformation (example_series [100, 110, 120, 130, 140, 150])
       = Inr (example_frame [100, 110, 120, 130, 140, 150])
   \<and> metrics_calculation (example_frame [100, 110, 120, 130, 140, 150])
       = Inr \<lparr>latest_price = 150, ret_total = 50, ret_week = 400 / 11\<rparr>
   \<and> calculate_percentage_return 110 150 = Inr (400 / 11)
   \<and> bar_c (hd (example_series [100, 110, 120, 130, 140, 150])) \<noteq> 0
   \<and> bar_c (example_series [100, 110, 120, 130, 140, 150] ! (6 - 5)) \<noteq> 0
   \<and> length (example_series [10, 12, 15]) < 5
   \<and> dataframe_transformation (example_series [10, 12, 15]) = Inr (example_frame [10, 12, 15])
   \<and> metrics_calculation (example_frame [10, 12, 15])
       = Inr \<lparr>latest_price = 15, ret_total = 50, ret_week = 50\<rparr>"
proof -
  have six: "metrics_calculation (example_frame [100, 110, 120, 130, 140, 150])
       = Inr \<lparr>latest_price = 150, ret_total = 50, ret_week = 400 / 11\<rparr>"
    by (simp add: metrics_calculation_def and_then_def getitem_def iloc_def len_def
        calculate_percentage_return_def example_frame_def)
  have three: "metrics_calculation (example_frame [10, 12, 15])
       = Inr \<lparr>latest_price = 15, ret_total = 50, ret_week = 50\<rparr>"
    by (simp add: metrics_calculation_def and_then_def getitem_def iloc_def len_def
        calculate_percentage_return_def example_frame_def)
  have d6: "dataframe_transformation (example_series [100, 110, 120, 130, 140, 150])
       = Inr (example_frame [100, 110, 120, 130, 140, 150])"
    by (rule dataframe_transformation_example) simp
  have d3: "dataframe_transformation (example_series [10, 12, 15])
       = Inr (example_frame [10, 12, 15])"
    by (rule dataframe_transformation_example) simp
  show ?thesis
    using six three d6 d3
      week_return_fifth_from_last [of "example_series [100, 110, 120, 130, 140, 150]"
        "example_frame [100, 110, 120, 130, 140, 150]"
        "\<lparr>latest_price = 150, ret_total = 50, ret_week = 400 / 11\<rparr>"]
      week_return_fifth_from_last [of "example_series [10, 12, 15]"
        "example_frame [10, 12, 15]" "\<lparr>latest_price = 15, ret_total = 50, ret_week = 50\<rparr>"]
    by (simp add: example_series_def example_bar_def)
qed

theorem week_return_sixth_from_last_counterexample:
  "dataframe_transformation (example_series [100, 110, 120, 130, 140, 150])
     = Inr (example_frame [100, 110, 120, 130, 140, 150])
   \<and> metrics_calculation (example_frame [100, 110, 120, 130, 140, 150])
       = Inr \<lparr>latest_price = 150, ret_total = 50, ret_week = 400 / 11\<rparr>
   \<and> calculate_percentage_return
       (map bar_c (example_series [100, 110, 120, 130, 140, 150])
          ! (length (example_series [100, 110, 120, 130, 140, 150]) - 6))
       (bar_c (last (example_series [100, 110, 120, 130, 140, 150]))) = Inr 50
   \<and> Inr (ret_week \<lparr>latest_price = 150, ret_total = 50, ret_week = 400 / 11\<rparr>)
     \<noteq> calculate_percentage_return
         (map bar_c (example_series [100, 110, 120, 130, 140, 150])
            ! (length (example_series [100, 110, 120, 130, 140, 150]) - 6))
         (bar_c (last (example_series [100, 110, 120, 130, 140, 150])))"
proof -
  have d: "dataframe_transformation (example_series [100, 110, 120, 130, 140, 150])
     = Inr (example_frame [100, 110, 120, 130, 140, 150])"
    by (rule dataframe_transformation_example) simp
  have m: "metrics_calculation (example_frame [100, 110, 120, 130, 140, 150])
       = Inr \<lparr>latest_price = 150, ret_total = 50, ret_week = 400 / 11\<rparr>"
    by (simp add: metrics_calculation_def and_then_def getitem_def iloc_def len_def
        calculate_percentage_return_def example_frame_def)
  have c: "calculate_percentage_return
       (map bar_c (example_series [100, 110, 120, 130, 140, 150])
          ! (length (example_series [100, 110, 120, 130, 140, 150]) - 6))
       (bar_c (last (example_series [100, 110, 120, 130, 140, 150]))) = Inr 50"
    by (simp add: example_series_def example_bar_def calculate_percentage_return_def)
  show ?thesis
    by (simp only: d m c) simp
qed

section \<open>The comparison branch\<close>

lemma comparison_logic_None:
  "results_of b = None \<Longrightarrow>
     comparison_logic df0 t b = Inr \<lparr>main_df = df0, bench_df = [], outperform_val = None\<rparr>"
  by (simp add: comparison_logic_def)

lemma comparison_logic_Nil:
  "results_of b = Some [] \<Longrightarrow> comparison_logic df0 t b = Inl (KeyError ''t'')"
  by (simp add: comparison_logic_def DataFrame_def getitem_def and_then_Inl)

lemma normalized_Cons:
  "col \<noteq> [] \<Longrightarrow> normalized col = Inr (map (\<lambda>x. (x / hd col) * 100) col)"
  by (simp add: normalized_def iloc_first and_then_Inr)

text \<open>The benchmark frame after lines 108 to 112.\<close>

lemma comparison_logic_bars:
  assumes "results_of b = Some rs" and "rs \<noteq> []"
    and "getitem df0 ''Close'' = Inr cl" and "cl \<noteq> []"
  shows "comparison_logic df0 t b =
     and_then (calculate_percentage_return (bar_c (hd rs)) (bar_c (last rs))) (\<lambda>bt.
       Inr \<lparr>main_df = setitem df0 ''Normalized'' (map (\<lambda>x. (x / hd cl) * 100) cl),
            bench_df =
              [(''c'', map bar_c rs), (''h'', map bar_h rs), (''l'', map bar_l rs),
               (''o'', map bar_o rs), (''t'', map bar_t rs), (''v'', map bar_v rs),
               (''Date'', map bar_t rs),
               (''Normalized'', map (\<lambda>x. (x / bar_c (hd rs)) * 100) (map bar_c rs))],
            outperform_val = Some (outperformance t bt)\<rparr>)"
  using assms
  by (simp add: comparison_logic_def DataFrame_def getitem_def setitem_def to_datetime_def
      and_then_Inr normalized_Cons iloc_first iloc_last hd_map last_map)

lemma getitem_setitem_same: "getitem (setitem df k col) k = Inr col"
proof (cases "map_of df k")
  case None
  then show ?thesis
    by (simp add: getitem_def setitem_def map_add_def)
next
  case (Some old)
  then have "map_of (map (\<lambda>(k', old). if k' = k then (k', col) else (k', old)) df) k = Some col"
    by (induction df) (auto split: if_splits)
  with Some show ?thesis
    by (simp add: getitem_def setitem_def)
qed

lemma getitem_setitem_other:
  assumes "k' \<noteq> k"
  shows "getitem (setitem df k col) k' = getitem df k'"
proof -
  have "map_of (map (\<lambda>(j, old). if j = k then (j, col) else (j, old)) df) k' = map_of df k'"
    using assms by (induction df) auto
  with assms show ?thesis
    by (auto simp add: getitem_def setitem_def map_add_def split: option.splits)
qed

section \<open>Division by a zero base\<close>



section \<open>Normalization and outperformance\<close>



lemma getitem_DataFrame_t: "rs \<noteq> [] \<Longrightarrow> getitem (DataFrame rs) ''t'' = Inr (map bar_t rs)"
  by (simp add: getitem_def DataFrame_def)

lemma comparison_logic_no_Close:
  "results_of b = Some rs \<Longrightarrow> rs \<noteq> [] \<Longrightarrow> getitem df0 ''Close'' = Inl e \<Longrightarrow>
     comparison_logic df0 t b = Inl e"
  by (simp add: comparison_logic_def getitem_DataFrame_t and_then_Inr and_then_Inl)

lemma comparison_logic_empty_Close:
  "results_of b = Some rs \<Longrightarrow> rs \<noteq> [] \<Longrightarrow> getitem df0 ''Close'' = Inr [] \<Longrightarrow>
     comparison_logic df0 t b = Inl IndexError"
  by (simp add: comparison_logic_def getitem_DataFrame_t and_then_Inr and_then_Inl
      normalized_def iloc_Nil)

text \<open>A comparison that returns had benchmark bars and primary closes to work on.\<close>

lemma comparison_logic_returns:
  assumes "results_of b = Some rs" and "comparison_logic df0 t b = Inr cmp"
  shows "rs \<noteq> [] \<and> (\<exists>cl. getitem df0 ''Close'' = Inr cl \<and> cl \<noteq> [])"
proof -
  have rs: "rs \<noteq> []"
    using assms comparison_logic_Nil by auto
  obtain cl where g: "getitem df0 ''Close'' = Inr cl"
    using assms rs comparison_logic_no_Close [of b rs df0 _ t]
    by (cases "getitem df0 ''Close''") simp_all
  have "cl \<noteq> []"
    using assms rs g comparison_logic_empty_Close [of b rs df0 t] by auto
  with rs g show ?thesis by simp
qed

text \<open>
  Claim C7. Outperformance is the difference of the primary total return and the
  benchmark total return, the latter being \<open>calculate_percentage_return\<close> of the first
  and the last close of the benchmark; it is antisymmetric: for two total returns \<open>A\<close>
  and \<open>B\<close>, the outperformance of \<open>A\<close> against \<open>B\<close> is minus that of \<open>B\<close> against \<open>A\<close>.
\<close>

theorem outperformance_difference:
  "outperformance A B = A - B
   \<and> outperformance A B = - outperformance B A
   \<and> (results_of benchmark_raw_data = Some rs
        \<and> comparison_logic df0 A benchmark_raw_data = Inr cmp \<longrightarrow>
        (\<exists>bench_total_ret.
           calculate_percentage_return (bar_c (hd rs)) (bar_c (last rs)) = Inr bench_total_ret
           \<and> outperform_val cmp = Some (A - bench_total_ret)))"
proof (intro conjI)
  show "outperformance A B = A - B"
    by (simp add: outperformance_def)
  show "outperformance A B = - outperformance B A"
    by (simp add: outperformance_def)
  show "results_of benchmark_raw_data = Some rs
        \<and> comparison_logic df0 A benchmark_raw_data = Inr cmp \<longrightarrow>
        (\<exists>bench_total_ret.
           calculate_percentage_return (bar_c (hd rs)) (bar_c (last rs)) = Inr bench_total_ret
           \<and> outperform_val cmp = Some (A - bench_total_ret))"
  proof (rule impI)
    assume a: "results_of benchmark_raw_data = Some rs
        \<and> comparison_logic df0 A benchmark_raw_data = Inr cmp"
    obtain cl where rs: "rs \<noteq> []" and g: "getitem df0 ''Close'' = Inr cl" and cl: "cl \<noteq> []"
      using a comparison_logic_returns by blast
    have "comparison_logic df0 A benchmark_raw_data =
       and_then (calculate_percentage_return (bar_c (hd rs)) (bar_c (last rs))) (\<lambda>bt.
         Inr \<lparr>main_df = setitem df0 ''Normalized'' (map (\<lambda>x. (x / hd cl) * 100) cl),
              bench_df =
                [(''c'', map bar_c rs), (''h'', map bar_h rs), (''l'', map bar_l rs),
                 (''o'', map bar_o rs), (''t'', map bar_t rs), (''v'', map bar_v rs),
                 (''Date'', map bar_t rs),
                 (''Normalized'', map (\<lambda>x. (x / bar_c (hd rs)) * 100) (map bar_c rs))],
              outperform_val = Some (outperformance A bt)\<rparr>)"
      using a rs cl g by (intro comparison_logic_bars) simp_all
    with a show "\<exists>bench_total_ret.
           calculate_percentage_return (bar_c (hd rs)) (bar_c (last rs)) = Inr bench_total_ret
           \<and> outperform_val cmp = Some (A - bench_total_ret)"
      by (auto simp add: and_then_def outperformance_def split: sum.splits)
  qed
qed

theorem outperformance_difference_witness:
  "results_of (Some (example_body (example_series [400, 402, 398, 405, 410])))
     = Some (example_series [400, 402, 398, 405, 410])
   \<and> and_then (comparison_logic (example_frame [150, 152, 149, 155, 160]) (20 / 3)
         (Some (example_body (example_series [400, 402, 398, 405, 410]))))
       (\<lambda>cmp. Inr (outperform_val cmp)) = Inr (Some (25 / 6))
   \<and> calculate_percentage_return 400 410 = Inr (5 / 2)
   \<and> outperformance (20 / 3) (5 / 2) = 25 / 6
   \<and> outperformance (5 / 2) (20 / 3) = - (25 / 6)"
proof -
  have r: "results_of (Some (example_body (example_series [400, 402, 398, 405, 410])))
     = Some (example_series [400, 402, 398, 405, 410])"
    by (simp add: results_of_def truthy_aggs_def example_body_def)
  have g: "getitem (example_frame [150, 152, 149, 155, 160]) ''Close''
     = Inr [150, 152, 149, 155, 160]"
    by (simp add: getitem_def example_frame_def)
  obtain cmp where c: "comparison_logic (example_frame [150, 152, 149, 155, 160]) (20 / 3)
         (Some (example_body (example_series [400, 402, 398, 405, 410]))) = Inr cmp"
    using comparison_logic_bars [OF r _ g, of "20 / 3"]
    by (simp add: example_series_def example_bar_def calculate_percentage_return_def
        and_then_Inr)
  note th = outperformance_difference [of "20 / 3" "5 / 2"
        "Some (example_body (example_series [400, 402, 398, 405, 410]))"
        "example_series [400, 402, 398, 405, 410]" "example_frame [150, 152, 149, 155, 160]" cmp]
  from th r c obtain bt where
    bt: "calculate_percentage_return (bar_c (hd (example_series [400, 402, 398, 405, 410])))
           (bar_c (last (example_series [400, 402, 398, 405, 410]))) = Inr bt"
    and o: "outperform_val cmp = Some (20 / 3 - bt)"
    by blast
  have "bt = 5 / 2"
    using bt by (simp add: example_series_def example_bar_def calculate_percentage_return_def)
  with o have o': "outperform_val cmp = Some (25 / 6)"
    by simp
  have a: "outperformance (20 / 3) (5 / 2) = 25 / 6"
    using th by simp
  have b: "outperformance (5 / 2) (20 / 3) = - (25 / 6)"
    using th a by simp
  have k: "calculate_percentage_return 400 410 = Inr (5 / 2)"
    by (simp add: calculate_percentage_return_def)
  show ?thesis
    using r c o' a b k by (simp add: and_then_Inr)
qed

section \<open>Runs of the script\<close>

lemma fetch_api_data_run: "\<exists>r. fetch_api_data answer url = ([GET url], Inr r)"
  by (auto simp add: fetch_api_data_def requests_get_def raising_def and_then_def
      split: sum.splits)

lemma fetch_api_data_body:
  "answer url = Inr res \<Longrightarrow> status_code res = 200 \<Longrightarrow> json res = Inr d \<Longrightarrow>
     fetch_api_data answer url = ([GET url], Inr (Some d))"
  by (simp add: fetch_api_data_def requests_get_def raising_def and_then_def)

lemma then_run_Inr: "then_run (tr, Inr x) f = (tr @ fst (f x), snd (f x))"
  by (simp add: then_run_def split: prod.splits)

lemma then_run_Inl: "then_run (tr, Inl e) f = (tr, Inl e)"
  by (simp add: then_run_def)

lemma then_run_pair: "then_run (tr, Inr x) f = (case f x of (tr', r) \<Rightarrow> (tr @ tr', r))"
  by (simp add: then_run_def)

lemma then_run_emit: "then_run (emit e) f = (e # fst (f ()), snd (f ()))"
  by (simp add: then_run_def emit_def split: prod.splits)

lemma then_run_eval_Inl: "then_run (eval (Inl e)) f = ([], Inl e)"
  by (simp add: then_run_def eval_def)

lemma then_run_eval_Inr: "then_run (eval (Inr x)) f = f x"
  by (simp add: then_run_def eval_def split: prod.splits)

lemma then_run_done: "then_run (tr, Inr ()) f = (tr @ fst (f ()), snd (f ()))"
  by (simp add: then_run_def split: prod.splits)

text \<open>
  Data acquisition never raises: it sends the price request, the details request and at
  most one more request, and hands on what the price fetch returned.
\<close>

lemma data_acquisition_run:
  assumes "fetch_api_data (stock_answer w) (stock_url w symbol) = ([GET (stock_url w symbol)], Inr s)"
  shows "\<exists>d b tr. data_acquisition w symbol benchmark_symbol
           = (GET (stock_url w symbol) # GET (info_url w symbol) # tr, Inr (s, d, b))
         \<and> (tr = [] \<or> (\<exists>u. tr = [GET u]))"
proof -
  obtain d where d: "fetch_api_data (info_answer w) (info_url w symbol)
      = ([GET (info_url w symbol)], Inr d)"
    using fetch_api_data_run by blast
  show ?thesis
  proof (cases "benchmark_symbol = None \<or> benchmark_symbol = Some []")
    case True
    then have "data_acquisition w symbol benchmark_symbol
        = (GET (stock_url w symbol) # GET (info_url w symbol) # [], Inr (s, d, None))"
      using assms d by (auto simp add: data_acquisition_def then_run_Inr eval_def)
    then show ?thesis by blast
  next
    case False
    then obtain bs where bs: "benchmark_symbol = Some bs" "bs \<noteq> []"
      by auto
    obtain b where b: "fetch_api_data (bench_answer w) (bench_url_api w bs)
        = ([GET (bench_url_api w bs)], Inr b)"
      using fetch_api_data_run by blast
    have "data_acquisition w symbol benchmark_symbol
        = (GET (stock_url w symbol) # GET (info_url w symbol) # [GET (bench_url_api w bs)],
           Inr (s, d, b))"
      using assms d b bs by (simp add: data_acquisition_def then_run_Inr eval_def)
    then show ?thesis by blast
  qed
qed

lemma logo_run:
  "\<exists>ev. logo w symbol = ([HEAD (img_url symbol), ev], Inr ())
        \<and> (ev = St_image (img_url symbol) \<or> ev = St_markdown ''## '')"
  by (cases "logo_answer w (img_url symbol)") (auto simp add: logo_def raising_def)

text \<open>
  Claim C8. With an empty ticker symbol the script shows the title and the prompt and
  stops, and sends no HTTP request; an empty text input is such a symbol. Conversely a
  run that sends a request has a symbol that is not empty, and with such a symbol the
  first effect of a run is the price request.
\<close>

theorem empty_symbol_stops_before_requests:
  "(symbol_of inp = [] \<longrightarrow>
      script w inp =
        ([St_title ''Stock Market Intelligence Dashboard'',
          St_warning ''Please select or enter a ticker symbol to begin.''], Inl StopException)
      \<and> requests_sent (script w inp) = [])
   \<and> (input_choice inp \<noteq> ''Choose from list'' \<and> ticker_text inp = [] \<longrightarrow> symbol_of inp = [])
   \<and> (requests_sent (script w inp) \<noteq> [] \<longrightarrow> symbol_of inp \<noteq> [])
   \<and> (symbol_of inp \<noteq> [] \<longrightarrow>
        (\<exists>rest. fst (script w inp) = GET (stock_url w (symbol_of inp)) # rest))"
proof -
  have stop: "symbol_of inp = [] \<Longrightarrow>
      script w inp =
        ([St_title ''Stock Market Intelligence Dashboard'',
          St_warning ''Please select or enter a ticker symbol to begin.''], Inl StopException)"
    by (simp add: script_def then_run_def emit_def eval_def)
  have none: "symbol_of inp = [] \<Longrightarrow> requests_sent (script w inp) = []"
    by (simp add: stop requests_sent_def)
  have empty: "input_choice inp \<noteq> ''Choose from list'' \<and> ticker_text inp = []
      \<Longrightarrow> symbol_of inp = []"
    by (simp add: symbol_of_def upper_def)
  have first: "\<exists>rest. fst (script w inp) = GET (stock_url w (symbol_of inp)) # rest"
    if ne: "symbol_of inp \<noteq> []"
  proof -
    obtain s where "fetch_api_data (stock_answer w) (stock_url w (symbol_of inp))
        = ([GET (stock_url w (symbol_of inp))], Inr s)"
      using fetch_api_data_run by blast
    then obtain d b tr where "data_acquisition w (symbol_of inp) (benchmark_symbol_of inp)
        = (GET (stock_url w (symbol_of inp)) # GET (info_url w (symbol_of inp)) # tr,
           Inr (s, d, b))"
      using data_acquisition_run by blast
    with ne show ?thesis
      by (simp add: script_def then_run_Inr)
  qed
  from stop none empty first show ?thesis
    by blast
qed

theorem empty_symbol_stops_before_requests_witness:
  "symbol_of \<lparr>input_choice = ''Type manually'', popular_stock = ''AAPL'', ticker_text = [],
       benchmark_label = ''S&P 500 (SPY)''\<rparr> = []
   \<and> script (example_world (Inl Timeout) (Inl Timeout))
       \<lparr>input_choice = ''Type manually'', popular_stock = ''AAPL'', ticker_text = [],
        benchmark_label = ''S&P 500 (SPY)''\<rparr>
     = ([St_title ''Stock Market Intelligence Dashboard'',
         St_warning ''Please select or enter a ticker symbol to begin.''], Inl StopException)
   \<and> requests_sent (script (example_world (Inl Timeout) (Inl Timeout))
       \<lparr>input_choice = ''Type manually'', popular_stock = ''AAPL'', ticker_text = [],
        benchmark_label = ''S&P 500 (SPY)''\<rparr>) = []
   \<and> symbol_of \<lparr>input_choice = ''Type manually'', popular_stock = ''AAPL'',
       ticker_text = ''nvda'', benchmark_label = ''None''\<rparr> = ''NVDA''
   \<and> requests_sent (script (example_world (Inl Timeout) (Inl Timeout))
       \<lparr>input_choice = ''Type manually'', popular_stock = ''AAPL'', ticker_text = ''nvda'',
        benchmark_label = ''None''\<rparr>) \<noteq> []"
proof -
  have e: "symbol_of \<lparr>input_choice = ''Type manually'', popular_stock = ''AAPL'',
       ticker_text = [], benchmark_label = ''S&P 500 (SPY)''\<rparr> = []"
    by (simp add: symbol_of_def upper_def)
  have n: "symbol_of \<lparr>input_choice = ''Type manually'', popular_stock = ''AAPL'',
       ticker_text = ''nvda'', benchmark_label = ''None''\<rparr> = ''NVDA''"
    by code_simp
  show ?thesis
    using e n
      empty_symbol_stops_before_requests [of
        "\<lparr>input_choice = ''Type manually'', popular_stock = ''AAPL'', ticker_text = [],
          benchmark_label = ''S&P 500 (SPY)''\<rparr>" "example_world (Inl Timeout) (Inl Timeout)"]
      empty_symbol_stops_before_requests [of
        "\<lparr>input_choice = ''Type manually'', popular_stock = ''AAPL'', ticker_text = ''nvda'',
          benchmark_label = ''None''\<rparr>" "example_world (Inl Timeout) (Inl Timeout)"]
    by (auto simp add: requests_sent_def)
qed

section \<open>The guard on the primary payload\<close>

text \<open>The page for a primary payload whose \<open>results\<close> is the empty list.\<close>

lemma page_empty_results_logo:
  assumes "results_of stock_raw_data = Some []"
    and "logo w symbol = ([HEAD (img_url symbol), ev], Inr ())"
  shows "data_processing_and_ui w symbol label stock_raw_data details_raw_data b
           = ([St_title ''Stock Market Intelligence Dashboard'', St_columns 2,
               HEAD (img_url symbol), ev, St_header (company_name symbol details_raw_data)],
              Inl (KeyError ''Timestamp''))"
  unfolding data_processing_and_ui_def
  by (simp only: assms option.case dataframe_transformation_Nil then_run_emit then_run_eval_Inl
      then_run_done fst_conv snd_conv append.simps)

lemma page_empty_results:
  assumes "results_of stock_raw_data = Some []"
  shows "\<exists>ev. data_processing_and_ui w symbol label stock_raw_data details_raw_data b
           = ([St_title ''Stock Market Intelligence Dashboard'', St_columns 2,
               HEAD (img_url symbol), ev, St_header (company_name symbol details_raw_data)],
              Inl (KeyError ''Timestamp''))
         \<and> (ev = St_image (img_url symbol) \<or> ev = St_markdown ''## '')"
proof -
  obtain ev where ev: "logo w symbol = ([HEAD (img_url symbol), ev], Inr ())"
    and kind: "ev = St_image (img_url symbol) \<or> ev = St_markdown ''## ''"
    using logo_run by blast
  from assms ev have "data_processing_and_ui w symbol label stock_raw_data details_raw_data b
           = ([St_title ''Stock Market Intelligence Dashboard'', St_columns 2,
               HEAD (img_url symbol), ev, St_header (company_name symbol details_raw_data)],
              Inl (KeyError ''Timestamp''))"
    by (rule page_empty_results_logo)
  with kind show ?thesis by blast
qed

lemma page_no_results:
  assumes "results_of stock_raw_data = None"
  shows "data_processing_and_ui w symbol label stock_raw_data details_raw_data b
           = ([St_error ''Error: Data fetch failed. Check your connection, ticker, or API limit.''],
              Inr ())"
  using assms by (simp add: data_processing_and_ui_def emit_def)

text \<open>
  Claim C1. A primary payload whose \<open>results\<close> is an empty list is to be treated as a
  fetch failure. The script does not: the dictionary is true and has the key, so the
  run enters the page, shows the title, the logo and the header, and ends with the
  uncaught \<open>KeyError\<close> of the missing column \<open>Timestamp\<close>; the error message is never
  shown. A failed fetch shows nothing but the error message, and the run completes.
\<close>

theorem empty_results_enters_page:
  "(symbol_of inp \<noteq> [] \<and> stock_answer w (stock_url w (symbol_of inp)) = Inr res
      \<and> status_code res = 200 \<and> json res = Inr d \<and> aggs_results d = Some [] \<longrightarrow>
        snd (script w inp) = Inl (KeyError ''Timestamp'')
        \<and> St_title ''Stock Market Intelligence Dashboard'' \<in> set (fst (script w inp))
        \<and> St_error ''Error: Data fetch failed. Check your connection, ticker, or API limit.''
            \<notin> set (fst (script w inp)))
   \<and> (symbol_of inp \<noteq> []
      \<and> snd (fetch_api_data (stock_answer w) (stock_url w (symbol_of inp))) = Inr None \<longrightarrow>
        snd (script w inp) = Inr ()
        \<and> St_title ''Stock Market Intelligence Dashboard'' \<notin> set (fst (script w inp))
        \<and> St_error ''Error: Data fetch failed. Check your connection, ticker, or API limit.''
            \<in> set (fst (script w inp)))"
proof (rule conjI; rule impI)
  assume a: "symbol_of inp \<noteq> [] \<and> stock_answer w (stock_url w (symbol_of inp)) = Inr res
      \<and> status_code res = 200 \<and> json res = Inr d \<and> aggs_results d = Some []"
  then have "fetch_api_data (stock_answer w) (stock_url w (symbol_of inp))
      = ([GET (stock_url w (symbol_of inp))], Inr (Some d))"
    using fetch_api_data_body [of "stock_answer w" "stock_url w (symbol_of inp)" res d] by simp
  then obtain dd b tr where acq: "data_acquisition w (symbol_of inp) (benchmark_symbol_of inp)
        = (GET (stock_url w (symbol_of inp)) # GET (info_url w (symbol_of inp)) # tr,
           Inr (Some d, dd, b))" and tr: "tr = [] \<or> (\<exists>u. tr = [GET u])"
    using data_acquisition_run by blast
  have "results_of (Some d) = Some []"
    using a by (simp add: results_of_def truthy_aggs_def)
  then obtain ev where page: "data_processing_and_ui w (symbol_of inp) (benchmark_label inp)
        (Some d) dd b
      = ([St_title ''Stock Market Intelligence Dashboard'', St_columns 2,
          HEAD (img_url (symbol_of inp)), ev, St_header (company_name (symbol_of inp) dd)],
         Inl (KeyError ''Timestamp''))"
    and kind: "ev = St_image (img_url (symbol_of inp)) \<or> ev = St_markdown ''## ''"
    using page_empty_results by blast
  have run: "script w inp
      = (GET (stock_url w (symbol_of inp)) # GET (info_url w (symbol_of inp)) # tr
           @ [St_title ''Stock Market Intelligence Dashboard'', St_columns 2,
              HEAD (img_url (symbol_of inp)), ev, St_header (company_name (symbol_of inp) dd)],
         Inl (KeyError ''Timestamp''))"
    using a by (simp add: script_def acq page then_run_pair)
  show "snd (script w inp) = Inl (KeyError ''Timestamp'')
        \<and> St_title ''Stock Market Intelligence Dashboard'' \<in> set (fst (script w inp))
        \<and> St_error ''Error: Data fetch failed. Check your connection, ticker, or API limit.''
            \<notin> set (fst (script w inp))"
    using tr kind by (auto simp add: run)
next
  assume a: "symbol_of inp \<noteq> []
      \<and> snd (fetch_api_data (stock_answer w) (stock_url w (symbol_of inp))) = Inr None"
  obtain r where "fetch_api_data (stock_answer w) (stock_url w (symbol_of inp))
      = ([GET (stock_url w (symbol_of inp))], Inr r)"
    using fetch_api_data_run by blast
  with a have "fetch_api_data (stock_answer w) (stock_url w (symbol_of inp))
      = ([GET (stock_url w (symbol_of inp))], Inr None)"
    by simp
  then obtain dd b tr where acq: "data_acquisition w (symbol_of inp) (benchmark_symbol_of inp)
        = (GET (stock_url w (symbol_of inp)) # GET (info_url w (symbol_of inp)) # tr,
           Inr (None, dd, b))" and tr: "tr = [] \<or> (\<exists>u. tr = [GET u])"
    using data_acquisition_run by blast
  have "results_of None = None"
    by (simp add: results_of_def truthy_aggs_def)
  then have page: "data_processing_and_ui w (symbol_of inp) (benchmark_label inp) None dd b
      = ([St_error ''Error: Data fetch failed. Check your connection, ticker, or API limit.''],
         Inr ())"
    by (rule page_no_results)
  have run: "script w inp
      = (GET (stock_url w (symbol_of inp)) # GET (info_url w (symbol_of inp)) # tr
           @ [St_error
                ''Error: Data fetch failed. Check your connection, ticker, or API limit.''],
         Inr ())"
    using a by (simp add: script_def acq page then_run_pair)
  show "snd (script w inp) = Inr ()
        \<and> St_title ''Stock Market Intelligence Dashboard'' \<notin> set (fst (script w inp))
        \<and> St_error ''Error: Data fetch failed. Check your connection, ticker, or API limit.''
            \<in> set (fst (script w inp))"
    using tr by (auto simp add: run)
qed

theorem empty_results_enters_page_witness:
  "script (example_world (Inr \<lparr>status_code = 200,
             json = Inr \<lparr>aggs_keys = [], aggs_results = Some []\<rparr>\<rparr>) (Inl Timeout))
     \<lparr>input_choice = ''Choose from list'', popular_stock = ''AAPL'', ticker_text = [],
      benchmark_label = ''None''\<rparr>
   = ([GET ''https://api.polygon.io/v2/aggs/ticker/AAPL/range/1/day/2024-04-01/2026-02-05?adjusted=true&sort=asc&apiKey=KEY'',
       GET ''https://api.polygon.io/v3/reference/tickers/AAPL?apiKey=KEY'',
       St_title ''Stock Market Intelligence Dashboard'', St_columns 2,
       HEAD ''https://companiesmarketcap.com/img/company-logos/64/AAPL.webp'',
       St_markdown ''## '', St_header ''AAPL''],
      Inl (KeyError ''Timestamp''))
   \<and> script (example_world (Inl Timeout) (Inl Timeout))
       \<lparr>input_choice = ''Choose from list'', popular_stock = ''AAPL'', ticker_text = [],
        benchmark_label = ''None''\<rparr>
     = ([GET ''https://api.polygon.io/v2/aggs/ticker/AAPL/range/1/day/2024-04-01/2026-02-05?adjusted=true&sort=asc&apiKey=KEY'',
         GET ''https://api.polygon.io/v3/reference/tickers/AAPL?apiKey=KEY'',
         St_error ''Error: Data fetch failed. Check your connection, ticker, or API limit.''],
        Inr ())"
proof -
  have one: "script (example_world (Inr \<lparr>status_code = 200,
             json = Inr \<lparr>aggs_keys = [], aggs_results = Some []\<rparr>\<rparr>) (Inl Timeout))
     \<lparr>input_choice = ''Choose from list'', popular_stock = ''AAPL'', ticker_text = [],
      benchmark_label = ''None''\<rparr>
   = ([GET ''https://api.polygon.io/v2/aggs/ticker/AAPL/range/1/day/2024-04-01/2026-02-05?adjusted=true&sort=asc&apiKey=KEY'',
       GET ''https://api.polygon.io/v3/reference/tickers/AAPL?apiKey=KEY'',
       St_title ''Stock Market Intelligence Dashboard'', St_columns 2,
       HEAD ''https://companiesmarketcap.com/img/company-logos/64/AAPL.webp'',
       St_markdown ''## '', St_header ''AAPL''],
      Inl (KeyError ''Timestamp''))"
    by code_simp
  have two: "script (example_world (Inl Timeout) (Inl Timeout))
       \<lparr>input_choice = ''Choose from list'', popular_stock = ''AAPL'', ticker_text = [],
        benchmark_label = ''None''\<rparr>
     = ([GET ''https://api.polygon.io/v2/aggs/ticker/AAPL/range/1/day/2024-04-01/2026-02-05?adjusted=true&sort=asc&apiKey=KEY'',
         GET ''https://api.polygon.io/v3/reference/tickers/AAPL?apiKey=KEY'',
         St_error ''Error: Data fetch failed. Check your connection, ticker, or API limit.''],
        Inr ())"
    by code_simp
  show ?thesis
    using one two
      empty_results_enters_page [of
        "\<lparr>input_choice = ''Choose from list'', popular_stock = ''AAPL'', ticker_text = [],
          benchmark_label = ''None''\<rparr>"
        "example_world (Inr \<lparr>status_code = 200,
             json = Inr \<lparr>aggs_keys = [], aggs_results = Some []\<rparr>\<rparr>) (Inl Timeout)"
        "\<lparr>status_code = 200, json = Inr \<lparr>aggs_keys = [], aggs_results = Some []\<rparr>\<rparr>"
        "\<lparr>aggs_keys = [], aggs_results = Some []\<rparr>"]
    by simp
qed

section \<open>The page with and without a benchmark\<close>

lemma page_fails_frame:
  assumes "results_of stock_raw_data = Some results"
    and "logo w symbol = (lg, Inr ())"
    and "dataframe_transformation results = Inl e"
  shows "data_processing_and_ui w symbol label stock_raw_data details_raw_data b
           = (St_title ''Stock Market Intelligence Dashboard'' # St_columns 2 # lg
                @ [St_header (company_name symbol details_raw_data)], Inl e)"
  unfolding data_processing_and_ui_def
  by (simp only: assms option.case then_run_emit then_run_eval_Inl then_run_done
      fst_conv snd_conv append.simps)

lemma page_fails_metrics:
  assumes "results_of stock_raw_data = Some results"
    and "logo w symbol = (lg, Inr ())"
    and "dataframe_transformation results = Inr df"
    and "metrics_calculation df = Inl e"
  shows "data_processing_and_ui w symbol label stock_raw_data details_raw_data b
           = (St_title ''Stock Market Intelligence Dashboard'' # St_columns 2 # lg
                @ [St_header (company_name symbol details_raw_data)], Inl e)"
  unfolding data_processing_and_ui_def
  by (simp only: assms option.case then_run_emit then_run_eval_Inl then_run_eval_Inr
      then_run_done fst_conv snd_conv append.simps)

lemma page_fails_comparison:
  assumes "results_of stock_raw_data = Some results"
    and "logo w symbol = (lg, Inr ())"
    and "dataframe_transformation results = Inr df"
    and "metrics_calculation df = Inr m"
    and "comparison_logic df (ret_total m) b = Inl e"
  shows "data_processing_and_ui w symbol label stock_raw_data details_raw_data b
           = (St_title ''Stock Market Intelligence Dashboard'' # St_columns 2 # lg
                @ [St_header (company_name symbol details_raw_data)], Inl e)"
  unfolding data_processing_and_ui_def
  by (simp only: assms option.case then_run_emit then_run_eval_Inl then_run_eval_Inr
      then_run_done fst_conv snd_conv append.simps)

lemma page_completes:
  assumes "results_of stock_raw_data = Some results"
    and "logo w symbol = (lg, Inr ())"
    and "dataframe_transformation results = Inr df"
    and "metrics_calculation df = Inr m"
    and "comparison_logic df (ret_total m) b = Inr cmp"
    and "candlestick_tab (main_df cmp) = (ct, Inr ())"
    and "comparison_tab symbol label cmp = (cp, Inr ())"
  shows "data_processing_and_ui w symbol label stock_raw_data details_raw_data b
           = (St_title ''Stock Market Intelligence Dashboard'' # St_columns 2 # lg
                @ St_header (company_name symbol details_raw_data)
                # performance_metrics label m (outperform_val cmp)
                @ St_tabs # ct @ cp @ market_insights symbol (main_df cmp), Inr ())"
  unfolding data_processing_and_ui_def
  by (simp only: assms option.case then_run_emit then_run_eval_Inr then_run_Inr
      fst_conv snd_conv append.simps)

lemma candlestick_tab_bars:
  assumes "results \<noteq> []" and "dataframe_transformation results = Inr df"
  shows "candlestick_tab df =
     ([St_candlestick (map bar_t results) (map bar_o results) (map bar_h results)
         (map bar_l results) (map bar_c results)], Inr ())"
proof -
  have df: "df = [(''Close'', map bar_c results), (''High'', map bar_h results),
          (''Low'', map bar_l results), (''Open'', map bar_o results),
          (''Timestamp'', map bar_t results), (''Volume'', map bar_v results),
          (''Date'', map bar_t results)]"
    using assms dataframe_transformation_bars by simp
  have g: "getitem df ''Date'' = Inr (map bar_t results)"
    "getitem df ''Open'' = Inr (map bar_o results)"
    "getitem df ''High'' = Inr (map bar_h results)"
    "getitem df ''Low'' = Inr (map bar_l results)"
    "getitem df ''Close'' = Inr (map bar_c results)"
    by (simp_all add: df getitem_def)
  show ?thesis
    unfolding candlestick_tab_def
    by (simp only: g then_run_eval_Inr emit_def)
qed

text \<open>A new column \<open>Normalized\<close> leaves the candlestick chart as it was.\<close>

lemma candlestick_tab_Normalized:
  "candlestick_tab (setitem df ''Normalized'' col) = candlestick_tab df"
  by (simp add: candlestick_tab_def getitem_setitem_other)

lemma comparison_tab_None:
  "outperform_val cmp = None \<Longrightarrow>
     comparison_tab symbol label cmp =
       ([St_info ''Please select a benchmark in the sidebar to see the growth comparison chart.''],
        Inr ())"
  by (simp add: comparison_tab_def emit_def)

lemma comparison_tab_Some:
  assumes "outperform_val cmp = Some x"
    and "getitem (main_df cmp) ''Date'' = Inr d" and "getitem (main_df cmp) ''Normalized'' = Inr n"
    and "getitem (bench_df cmp) ''Date'' = Inr bd"
    and "getitem (bench_df cmp) ''Normalized'' = Inr bn"
  shows "\<exists>cp. comparison_tab symbol label cmp = (cp, Inr ())
           \<and> (\<forall>e \<in> set cp. \<not> primary_rendering e)"
proof -
  have "comparison_tab symbol label cmp =
      ([St_comparison symbol d n label bd bn,
        St_info (''This chart compares the relative performance starting from ''
                @ START_DATE @ '' of a $100 investment in '' @ symbol @ '' vs '' @ label
                @ ''.'')], Inr ())"
    unfolding comparison_tab_def
    by (simp only: assms then_run_eval_Inr emit_def then_run_Inr fst_conv snd_conv
        append.simps option.distinct if_True not_False_eq_True simp_thms)
  then show ?thesis by simp
qed

text \<open>The result of a comparison that had benchmark bars to work on.\<close>

lemma comparison_logic_shape:
  assumes "results_of b = Some rs" and "comparison_logic df0 t b = Inr cmp"
  shows "\<exists>cl bt. getitem df0 ''Close'' = Inr cl \<and> cl \<noteq> [] \<and> rs \<noteq> []
     \<and> cmp = \<lparr>main_df = setitem df0 ''Normalized'' (map (\<lambda>x. (x / hd cl) * 100) cl),
              bench_df =
                [(''c'', map bar_c rs), (''h'', map bar_h rs), (''l'', map bar_l rs),
                 (''o'', map bar_o rs), (''t'', map bar_t rs), (''v'', map bar_v rs),
                 (''Date'', map bar_t rs),
                 (''Normalized'', map (\<lambda>x. (x / bar_c (hd rs)) * 100) (map bar_c rs))],
              outperform_val = Some (outperformance t bt)\<rparr>"
proof -
  obtain cl where rs: "rs \<noteq> []" and g: "getitem df0 ''Close'' = Inr cl" and cl: "cl \<noteq> []"
    using assms comparison_logic_returns by blast
  let ?R = "\<lambda>bt. \<lparr>main_df = setitem df0 ''Normalized'' (map (\<lambda>x. (x / hd cl) * 100) cl),
              bench_df =
                [(''c'', map bar_c rs), (''h'', map bar_h rs), (''l'', map bar_l rs),
                 (''o'', map bar_o rs), (''t'', map bar_t rs), (''v'', map bar_v rs),
                 (''Date'', map bar_t rs),
                 (''Normalized'', map (\<lambda>x. (x / bar_c (hd rs)) * 100) (map bar_c rs))],
              outperform_val = Some (outperformance t bt)\<rparr>"
  have eq: "comparison_logic df0 t b =
       and_then (calculate_percentage_return (bar_c (hd rs)) (bar_c (last rs)))
         (\<lambda>bt. Inr (?R bt))"
    using assms rs cl g by (intro comparison_logic_bars) simp_all
  show ?thesis
  proof (cases "calculate_percentage_return (bar_c (hd rs)) (bar_c (last rs))")
    case (Inl e)
    with eq have "comparison_logic df0 t b = Inl e"
      by (simp only: and_then_Inl)
    with assms show ?thesis by simp
  next
    case (Inr bt)
    with eq have "comparison_logic df0 t b = Inr (?R bt)"
      by (simp only: and_then_Inr)
    with assms have "cmp = ?R bt" by simp
    with g cl rs show ?thesis by blast
  qed
qed

text \<open>
  After a comparison that returned, both tabs are drawn, the candlestick chart is that of
  the frame before the comparison, and the second tab shows nothing of the primary
  rendering.
\<close>

lemma tabs_after_comparison:
  assumes "results \<noteq> []" and "dataframe_transformation results = Inr df"
    and "comparison_logic df t b = Inr cmp"
  shows "candlestick_tab (main_df cmp) = candlestick_tab df
     \<and> (\<exists>cp. comparison_tab symbol label cmp = (cp, Inr ())
            \<and> (\<forall>e \<in> set cp. \<not> primary_rendering e))"
proof (cases "results_of b")
  case None
  then have "cmp = \<lparr>main_df = df, bench_df = [], outperform_val = None\<rparr>"
    using assms comparison_logic_None [of b df t] by simp
  then show ?thesis
    by (simp add: comparison_tab_None)
next
  case (Some rs)
  then obtain cl bt where cmp: "cmp = \<lparr>main_df = setitem df ''Normalized'' (map (\<lambda>x. (x / hd cl) * 100) cl),
              bench_df =
                [(''c'', map bar_c rs), (''h'', map bar_h rs), (''l'', map bar_l rs),
                 (''o'', map bar_o rs), (''t'', map bar_t rs), (''v'', map bar_v rs),
                 (''Date'', map bar_t rs),
                 (''Normalized'', map (\<lambda>x. (x / bar_c (hd rs)) * 100) (map bar_c rs))],
              outperform_val = Some (outperformance t bt)\<rparr>"
    using assms comparison_logic_shape by blast
  have df: "df = [(''Close'', map bar_c results), (''High'', map bar_h results),
          (''Low'', map bar_l results), (''Open'', map bar_o results),
          (''Timestamp'', map bar_t results), (''Volume'', map bar_v results),
          (''Date'', map bar_t results)]"
    using assms dataframe_transformation_bars by simp
  have date: "getitem df ''Date'' = Inr (map bar_t results)"
    by (simp add: df getitem_def)
  have m1: "getitem (main_df cmp) ''Date'' = Inr (map bar_t results)"
    by (simp add: cmp getitem_setitem_other date)
  have m2: "getitem (main_df cmp) ''Normalized'' = Inr (map (\<lambda>x. (x / hd cl) * 100) cl)"
    by (simp add: cmp getitem_setitem_same)
  have b1: "getitem (bench_df cmp) ''Date'' = Inr (map bar_t rs)"
    by (simp add: cmp getitem_def)
  have b2: "getitem (bench_df cmp) ''Normalized''
      = Inr (map (\<lambda>x. (x / bar_c (hd rs)) * 100) (map bar_c rs))"
    by (simp add: cmp getitem_def)
  have o: "outperform_val cmp = Some (outperformance t bt)"
    by (simp add: cmp)
  have "candlestick_tab (main_df cmp) = candlestick_tab df"
    by (simp add: cmp candlestick_tab_Normalized)
  moreover have "\<exists>cp. comparison_tab symbol label cmp = (cp, Inr ())
            \<and> (\<forall>e \<in> set cp. \<not> primary_rendering e)"
    using o m1 m2 b1 b2 by (rule comparison_tab_Some)
  ultimately show ?thesis by blast
qed

lemma primary_rendering_performance_metrics:
  "filter primary_rendering (performance_metrics label m outperform) =
     [St_metric ''Current Price'' (latest_price m), St_metric ''Week Change'' (ret_week m),
      St_metric ''Total Change'' (ret_total m)]"
  by (cases outperform) (simp_all add: performance_metrics_def)

lemma primary_rendering_market_insights:
  "filter primary_rendering (market_insights symbol df) = []"
  by (simp add: market_insights_def)

text \<open>
  The primary rendering of a page that completes: the three tiles and the candlestick
  chart of the frame made of the primary bars, whatever the benchmark data and label.
\<close>

lemma primary_rendering_page:
  assumes "results_of stock_raw_data = Some results"
    and "snd (data_processing_and_ui w symbol label stock_raw_data details_raw_data b) = Inr ()"
  shows "\<exists>df m. dataframe_transformation results = Inr df \<and> metrics_calculation df = Inr m
     \<and> (\<exists>cmp. comparison_logic df (ret_total m) b = Inr cmp)
     \<and> filter primary_rendering
          (fst (data_processing_and_ui w symbol label stock_raw_data details_raw_data b))
        = [St_metric ''Current Price'' (latest_price m), St_metric ''Week Change'' (ret_week m),
           St_metric ''Total Change'' (ret_total m),
           St_candlestick (map bar_t results) (map bar_o results) (map bar_h results)
             (map bar_l results) (map bar_c results)]"
proof -
  obtain ev where lg: "logo w symbol = ([HEAD (img_url symbol), ev], Inr ())"
    and kind: "ev = St_image (img_url symbol) \<or> ev = St_markdown ''## ''"
    using logo_run by blast
  obtain df where df: "dataframe_transformation results = Inr df"
    using assms page_fails_frame [OF assms(1) lg, of _ label details_raw_data b]
    by (cases "dataframe_transformation results") simp_all
  then have ne: "results \<noteq> []"
    using dataframe_transformation_Nil by auto
  obtain m where m: "metrics_calculation df = Inr m"
    using assms page_fails_metrics [OF assms(1) lg df, of _ label details_raw_data b]
    by (cases "metrics_calculation df") simp_all
  obtain cmp where cmp: "comparison_logic df (ret_total m) b = Inr cmp"
    using assms page_fails_comparison [OF assms(1) lg df m, of b _ label details_raw_data]
    by (cases "comparison_logic df (ret_total m) b") simp_all
  have ct: "candlestick_tab (main_df cmp) =
     ([St_candlestick (map bar_t results) (map bar_o results) (map bar_h results)
         (map bar_l results) (map bar_c results)], Inr ())"
    using tabs_after_comparison [OF ne df cmp] candlestick_tab_bars [OF ne df] by simp
  obtain cp where cp: "comparison_tab symbol label cmp = (cp, Inr ())"
    and no: "\<forall>e \<in> set cp. \<not> primary_rendering e"
    using tabs_after_comparison [OF ne df cmp] by blast
  have nocp: "filter primary_rendering cp = []"
    using no by (simp add: filter_empty_conv)
  have "fst (data_processing_and_ui w symbol label stock_raw_data details_raw_data b)
      = St_title ''Stock Market Intelligence Dashboard'' # St_columns 2
          # [HEAD (img_url symbol), ev]
          @ St_header (company_name symbol details_raw_data)
          # performance_metrics label m (outperform_val cmp)
          @ St_tabs
          # [St_candlestick (map bar_t results) (map bar_o results) (map bar_h results)
               (map bar_l results) (map bar_c results)]
          @ cp @ market_insights symbol (main_df cmp)"
    by (simp only: page_completes [OF assms(1) lg df m cmp ct cp] fst_conv)
  then have "filter primary_rendering
          (fst (data_processing_and_ui w symbol label stock_raw_data details_raw_data b))
        = [St_metric ''Current Price'' (latest_price m), St_metric ''Week Change'' (ret_week m),
           St_metric ''Total Change'' (ret_total m),
           St_candlestick (map bar_t results) (map bar_o results) (map bar_h results)
             (map bar_l results) (map bar_c results)]"
    using kind
    by (auto simp add: primary_rendering_performance_metrics primary_rendering_market_insights
        nocp)
  with df m cmp show ?thesis by blast
qed

text \<open>
  Claim C10. The primary frame gets its column \<open>Normalized\<close> only in the comparison
  branch, that is when the benchmark data is true and has the key \<open>results\<close>. With no
  benchmark selected no benchmark is fetched and the benchmark data is \<open>None\<close>, as it is
  after a failed fetch; then the comparison leaves the primary frame as it was, the
  benchmark frame empty and the outperformance \<open>None\<close>, so neither frame has normalized
  values. The rest of the primary rendering does not depend on the benchmark: when the
  page of a run with benchmark data completes, so does the page of the same run without,
  and both show the same three metric tiles and the same candlestick chart.
\<close>

theorem normalized_only_with_benchmark:
  "(results_of benchmark_raw_data = None \<longrightarrow>
      comparison_logic df0 t benchmark_raw_data
        = Inr \<lparr>main_df = df0, bench_df = [], outperform_val = None\<rparr>)
   \<and> (dataframe_transformation results = Inr df0
        \<and> comparison_logic df0 t benchmark_raw_data = Inr cmp \<longrightarrow>
        (\<exists>col. getitem (main_df cmp) ''Normalized'' = Inr col)
          = (results_of benchmark_raw_data \<noteq> None)
        \<and> (\<exists>col. getitem (bench_df cmp) ''Normalized'' = Inr col)
          = (results_of benchmark_raw_data \<noteq> None))
   \<and> (benchmark_symbol_of inp = None \<longrightarrow>
        (\<exists>tr s d. data_acquisition w symbol (benchmark_symbol_of inp) = (tr, Inr (s, d, None))))
   \<and> results_of None = None
   \<and> (results_of b0 = None
        \<and> snd (data_processing_and_ui w symbol label stock_raw_data details_raw_data b) = Inr ()
        \<longrightarrow>
        snd (data_processing_and_ui w symbol label0 stock_raw_data details_raw_data b0) = Inr ()
        \<and> filter primary_rendering
            (fst (data_processing_and_ui w symbol label0 stock_raw_data details_raw_data b0))
          = filter primary_rendering
              (fst (data_processing_and_ui w symbol label stock_raw_data details_raw_data b)))"
proof (intro conjI)
  show "results_of benchmark_raw_data = None \<longrightarrow>
      comparison_logic df0 t benchmark_raw_data
        = Inr \<lparr>main_df = df0, bench_df = [], outperform_val = None\<rparr>"
    by (simp add: comparison_logic_None)
next
  show "dataframe_transformation results = Inr df0
        \<and> comparison_logic df0 t benchmark_raw_data = Inr cmp \<longrightarrow>
        (\<exists>col. getitem (main_df cmp) ''Normalized'' = Inr col)
          = (results_of benchmark_raw_data \<noteq> None)
        \<and> (\<exists>col. getitem (bench_df cmp) ''Normalized'' = Inr col)
          = (results_of benchmark_raw_data \<noteq> None)"
  proof (rule impI)
    assume a: "dataframe_transformation results = Inr df0
        \<and> comparison_logic df0 t benchmark_raw_data = Inr cmp"
    then have ne: "results \<noteq> []"
      using dataframe_transformation_Nil by auto
    have df0: "df0 = [(''Close'', map bar_c results), (''High'', map bar_h results),
          (''Low'', map bar_l results), (''Open'', map bar_o results),
          (''Timestamp'', map bar_t results), (''Volume'', map bar_v results),
          (''Date'', map bar_t results)]"
      using a ne dataframe_transformation_bars by simp
    have before: "getitem df0 ''Normalized'' = Inl (KeyError ''Normalized'')"
      by (simp add: df0 getitem_def)
    show "(\<exists>col. getitem (main_df cmp) ''Normalized'' = Inr col)
          = (results_of benchmark_raw_data \<noteq> None)
        \<and> (\<exists>col. getitem (bench_df cmp) ''Normalized'' = Inr col)
          = (results_of benchmark_raw_data \<noteq> None)"
    proof (cases "results_of benchmark_raw_data")
      case None
      then have "cmp = \<lparr>main_df = df0, bench_df = [], outperform_val = None\<rparr>"
        using a comparison_logic_None [of benchmark_raw_data df0 t] by simp
      with None before show ?thesis
        by (simp add: getitem_def)
    next
      case (Some rs)
      then obtain cl bt where
        "cmp = \<lparr>main_df = setitem df0 ''Normalized'' (map (\<lambda>x. (x / hd cl) * 100) cl),
              bench_df =
                [(''c'', map bar_c rs), (''h'', map bar_h rs), (''l'', map bar_l rs),
                 (''o'', map bar_o rs), (''t'', map bar_t rs), (''v'', map bar_v rs),
                 (''Date'', map bar_t rs),
                 (''Normalized'', map (\<lambda>x. (x / bar_c (hd rs)) * 100) (map bar_c rs))],
              outperform_val = Some (outperformance t bt)\<rparr>"
        using a comparison_logic_shape by blast
      then have "getitem (main_df cmp) ''Normalized''
            = Inr (map (\<lambda>x. (x / hd cl) * 100) cl)"
        and "getitem (bench_df cmp) ''Normalized''
            = Inr (map (\<lambda>x. (x / bar_c (hd rs)) * 100) (map bar_c rs))"
        by (simp_all add: getitem_setitem_same) (simp add: getitem_def)
      with Some show ?thesis by simp
    qed
  qed
next
  show "benchmark_symbol_of inp = None \<longrightarrow>
        (\<exists>tr s d. data_acquisition w symbol (benchmark_symbol_of inp) = (tr, Inr (s, d, None)))"
  proof (rule impI)
    assume none: "benchmark_symbol_of inp = None"
    obtain s where s: "fetch_api_data (stock_answer w) (stock_url w symbol)
        = ([GET (stock_url w symbol)], Inr s)"
      using fetch_api_data_run by blast
    obtain d where d: "fetch_api_data (info_answer w) (info_url w symbol)
        = ([GET (info_url w symbol)], Inr d)"
      using fetch_api_data_run by blast
    have "data_acquisition w symbol None
        = ([GET (stock_url w symbol), GET (info_url w symbol)], Inr (s, d, None))"
      by (simp add: data_acquisition_def s d then_run_Inr eval_def)
    with none show "\<exists>tr s d. data_acquisition w symbol (benchmark_symbol_of inp)
        = (tr, Inr (s, d, None))"
      by simp
  qed
next
  show "results_of None = None"
    by (simp add: results_of_def truthy_aggs_def)
next
  show "results_of b0 = None
        \<and> snd (data_processing_and_ui w symbol label stock_raw_data details_raw_data b) = Inr ()
        \<longrightarrow>
        snd (data_processing_and_ui w symbol label0 stock_raw_data details_raw_data b0) = Inr ()
        \<and> filter primary_rendering
            (fst (data_processing_and_ui w symbol label0 stock_raw_data details_raw_data b0))
          = filter primary_rendering
              (fst (data_processing_and_ui w symbol label stock_raw_data details_raw_data b))"
  proof (rule impI)
    assume a: "results_of b0 = None
        \<and> snd (data_processing_and_ui w symbol label stock_raw_data details_raw_data b) = Inr ()"
    show "snd (data_processing_and_ui w symbol label0 stock_raw_data details_raw_data b0) = Inr ()
        \<and> filter primary_rendering
            (fst (data_processing_and_ui w symbol label0 stock_raw_data details_raw_data b0))
          = filter primary_rendering
              (fst (data_processing_and_ui w symbol label stock_raw_data details_raw_data b))"
    proof (cases "results_of stock_raw_data")
      case None
      then show ?thesis
        by (simp add: page_no_results)
    next
      case (Some results)
      obtain df m where df: "dataframe_transformation results = Inr df"
        and m: "metrics_calculation df = Inr m"
        and shown: "filter primary_rendering
          (fst (data_processing_and_ui w symbol label stock_raw_data details_raw_data b))
          = [St_metric ''Current Price'' (latest_price m),
             St_metric ''Week Change'' (ret_week m), St_metric ''Total Change'' (ret_total m),
             St_candlestick (map bar_t results) (map bar_o results) (map bar_h results)
               (map bar_l results) (map bar_c results)]"
        using a primary_rendering_page [OF Some, of w symbol label details_raw_data b] by blast
      have ne: "results \<noteq> []"
        using df dataframe_transformation_Nil by auto
      obtain ev where lg: "logo w symbol = ([HEAD (img_url symbol), ev], Inr ())"
        using logo_run by blast
      have cmp0: "comparison_logic df (ret_total m) b0
          = Inr \<lparr>main_df = df, bench_df = [], outperform_val = None\<rparr>"
        using a by (simp add: comparison_logic_None)
      have ct: "candlestick_tab (main_df \<lparr>main_df = df, bench_df = [], outperform_val = None\<rparr>) =
         ([St_candlestick (map bar_t results) (map bar_o results) (map bar_h results)
             (map bar_l results) (map bar_c results)], Inr ())"
        using candlestick_tab_bars [OF ne df] by simp
      have cp: "comparison_tab symbol label0 \<lparr>main_df = df, bench_df = [], outperform_val = None\<rparr>
          = ([St_info
               ''Please select a benchmark in the sidebar to see the growth comparison chart.''],
             Inr ())"
        by (simp add: comparison_tab_None)
      have done0: "snd (data_processing_and_ui w symbol label0 stock_raw_data details_raw_data b0)
          = Inr ()"
        by (simp only: page_completes [OF Some lg df m cmp0 ct cp] snd_conv)
      obtain df' m' where "dataframe_transformation results = Inr df'"
        and "metrics_calculation df' = Inr m'"
        and "filter primary_rendering
          (fst (data_processing_and_ui w symbol label0 stock_raw_data details_raw_data b0))
          = [St_metric ''Current Price'' (latest_price m'),
             St_metric ''Week Change'' (ret_week m'), St_metric ''Total Change'' (ret_total m'),
             St_candlestick (map bar_t results) (map bar_o results) (map bar_h results)
               (map bar_l results) (map bar_c results)]"
        using done0 primary_rendering_page [OF Some, of w symbol label0 details_raw_data b0]
        by blast
      with df m shown done0 show ?thesis by simp
    qed
  qed
qed

theorem normalized_only_with_benchmark_witness:
  "results_of None = None
   \<and> comparison_logic (example_frame [150, 152, 149, 155, 160]) (20 / 3) None
       = Inr \<lparr>main_df = example_frame [150, 152, 149, 155, 160], bench_df = [],
              outperform_val = None\<rparr>
   \<and> dataframe_transformation (example_series [150, 152, 149, 155, 160])
       = Inr (example_frame [150, 152, 149, 155, 160])
   \<and> getitem (example_frame [150, 152, 149, 155, 160]) ''Normalized''
       = Inl (KeyError ''Normalized'')
   \<and> benchmark_symbol_of \<lparr>input_choice = ''Choose from list'', popular_stock = ''AAPL'',
        ticker_text = [], benchmark_label = ''None''\<rparr> = None
   \<and> snd (data_processing_and_ui (example_world (Inl Timeout) (Inl Timeout)) ''AAPL''
        ''S&P 500 (SPY)'' (Some (example_body (example_series [150, 152, 149, 155, 160]))) None
        (Some (example_body (example_series [400, 402, 398, 405, 410])))) = Inr ()
   \<and> snd (data_processing_and_ui (example_world (Inl Timeout) (Inl Timeout)) ''AAPL''
        ''None'' (Some (example_body (example_series [150, 152, 149, 155, 160]))) None None)
      = Inr ()
   \<and> filter primary_rendering
       (fst (data_processing_and_ui (example_world (Inl Timeout) (Inl Timeout)) ''AAPL''
          ''None'' (Some (example_body (example_series [150, 152, 149, 155, 160]))) None None))
     = filter primary_rendering
         (fst (data_processing_and_ui (example_world (Inl Timeout) (Inl Timeout)) ''AAPL''
            ''S&P 500 (SPY)'' (Some (example_body (example_series [150, 152, 149, 155, 160])))
            None (Some (example_body (example_series [400, 402, 398, 405, 410])))))"
proof -
  have d: "dataframe_transformation (example_series [150, 152, 149, 155, 160])
       = Inr (example_frame [150, 152, 149, 155, 160])"
    by (rule dataframe_transformation_example) simp
  have g: "getitem (example_frame [150, 152, 149, 155, 160]) ''Normalized''
       = Inl (KeyError ''Normalized'')"
    by (simp add: getitem_def example_frame_def)
  have s: "benchmark_symbol_of \<lparr>input_choice = ''Choose from list'', popular_stock = ''AAPL'',
        ticker_text = [], benchmark_label = ''None''\<rparr> = None"
    by (simp add: benchmark_symbol_of_def BENCHMARK_MAP_def)
  have p: "snd (data_processing_and_ui (example_world (Inl Timeout) (Inl Timeout)) ''AAPL''
        ''S&P 500 (SPY)'' (Some (example_body (example_series [150, 152, 149, 155, 160]))) None
        (Some (example_body (example_series [400, 402, 398, 405, 410])))) = Inr ()"
    by code_simp
  show ?thesis
    using d g s p
      normalized_only_with_benchmark [of None "example_frame [150, 152, 149, 155, 160]"
        "20 / 3" "example_series [150, 152, 149, 155, 160]"
        "\<lparr>main_df = example_frame [150, 152, 149, 155, 160], bench_df = [],
          outperform_val = None\<rparr>"
        "\<lparr>input_choice = ''Choose from list'', popular_stock = ''AAPL'',
          ticker_text = [], benchmark_label = ''None''\<rparr>"
        "example_world (Inl Timeout) (Inl Timeout)" "''AAPL''" None "''S&P 500 (SPY)''"
        "Some (example_body (example_series [150, 152, 149, 155, 160]))" None
        "Some (example_body (example_series [400, 402, 398, 405, 410]))" "''None''"]
    by simp
qed

end
